theory Spec2Isabelle
  imports Complex_Main
begin

section \<open>The neural network builder of coremltools/models/neural\_network.py\<close>

text \<open>
  The builder holds a model specification (\<open>self.spec\<close>) and the network inside it
  (\<open>self.nn_spec\<close>). Every method mutates them in place and either returns or raises; an
  exception does not undo the writes made before it. A method is therefore a function from
  the builder to an outcome and the builder as the method leaves it.

  Conventions of the embedding:
  \<^item> floating-point payloads are real numbers and \<open>float(x)\<close> is the identity on them;
  \<^item> unsigned fields (sizes, counts) are natural numbers and signed fields are integers,
    both taken inside the range of their field;
  \<^item> a member of a \<open>oneof\<close> is selected as soon as the builder writes to it (an assignment,
    \<open>add()\<close>, \<open>append\<close>, \<open>extend\<close>, \<open>ClearField\<close> or the \<open>MergeFromString('')\<close> idiom the
    source uses "to set empty message"); reading a member selects nothing;
  \<^item> a numpy array of rank n is an n-fold nested list in row-major order.
\<close>

subsection \<open>Exceptions and outcomes\<close>

datatype error =
    TypeError | ValueError | RuntimeError | NotImplementedError | IndexError | AttributeError

datatype outcome = Returned | Raised error

subsection \<open>Feature descriptions\<close>

datatype array_data_type = INVALID_ARRAY_DATA_TYPE | FLOAT32 | DOUBLE | INT32

datatype key_type = NoKeyType | Int64KeyType | StringKeyType

datatype color_space = INVALID_COLOR_SPACE | GRAYSCALE | RGB | BGR

datatype feature_type =
    NoFeatureType
  | Int64Type
  | DoubleType
  | StringType
  | ImageType color_space int int
  | MultiArrayType "int list" array_data_type
  | DictionaryType key_type

record feature =
  fname :: string
  ftype :: feature_type

subsection \<open>Layers\<close>

datatype activation_params =
    ActivationUnset
  | ActLinear
  | ActReLU
  | ActLeakyReLU real
  | ActThresholdedReLU real
  | ActPReLU "real list"
  | ActTanh
  | ActScaledTanh real real
  | ActSigmoid
  | ActSigmoidHard real real
  | ActELU real
  | ActSoftsign
  | ActSoftplus
  | ActParametricSoftplus "real list" "real list"

type_synonym border_amounts = "(nat \<times> nat) list"

datatype same_padding_mode = BOTTOM_RIGHT_HEAVY | TOP_LEFT_HEAVY

datatype padding_type = PaddingUnset | ValidPadding border_amounts | SamePadding same_padding_mode

record inner_product_params =
  ip_inputChannels :: nat
  ip_outputChannels :: nat
  ip_hasBias :: bool
  ip_weights :: "real list"
  ip_bias :: "real list"

record embedding_params =
  emb_inputDim :: nat
  emb_outputChannels :: nat
  emb_hasBias :: bool
  emb_weights :: "real list"
  emb_bias :: "real list"

record convolution_params =
  conv_isDeconvolution :: bool
  conv_outputShape :: "nat list"
  conv_outputChannels :: nat
  conv_kernelChannels :: nat
  conv_kernelSize :: "nat list"
  conv_stride :: "nat list"
  conv_padding :: padding_type
  conv_nGroups :: nat
  conv_hasBias :: bool
  conv_weights :: "real list"
  conv_bias :: "real list"

datatype pooling_kind = POOL_MAX | POOL_AVERAGE | POOL_L2

record pooling_params =
  pool_type :: pooling_kind
  pool_padding :: padding_type
  pool_kernelSize :: "nat list"
  pool_stride :: "nat list"
  pool_avgPoolExcludePadding :: bool
  pool_globalPooling :: bool

record padding_params =
  pad_constant_value :: real
  pad_paddingAmounts :: border_amounts

record crop_params =
  crop_offset :: "nat list"
  crop_cropAmounts :: border_amounts

record simple_recurrent_params =
  rnn_reverseInput :: bool
  rnn_inputVectorSize :: nat
  rnn_outputVectorSize :: nat
  rnn_hasBiasVector :: bool
  rnn_sequenceOutput :: bool
  rnn_activation :: activation_params
  rnn_weightMatrix :: "real list"
  rnn_recursionMatrix :: "real list"
  rnn_biasVector :: "real list"

record gru_params =
  gru_inputVectorSize :: nat
  gru_outputVectorSize :: nat
  gru_hasBiasVectors :: bool
  gru_sequenceOutput :: bool
  gru_reverseInput :: bool
  gru_activations :: "activation_params list"
  gru_updateGateWeightMatrix :: "real list"
  gru_resetGateWeightMatrix :: "real list"
  gru_outputGateWeightMatrix :: "real list"
  gru_updateGateRecursionMatrix :: "real list"
  gru_resetGateRecursionMatrix :: "real list"
  gru_outputGateRecursionMatrix :: "real list"
  gru_updateGateBiasVector :: "real list"
  gru_resetGateBiasVector :: "real list"
  gru_outputGateBiasVector :: "real list"

record lstm_params =
  sequenceOutput :: bool
  forgetBias :: bool
  hasBiasVectors :: bool
  hasPeepholeVectors :: bool
  coupledInputAndForgetGate :: bool
  cellClipThreshold :: real

record lstm_weight_params =
  inputGateWeightMatrix :: "real list"
  forgetGateWeightMatrix :: "real list"
  outputGateWeightMatrix :: "real list"
  blockInputWeightMatrix :: "real list"
  inputGateRecursionMatrix :: "real list"
  forgetGateRecursionMatrix :: "real list"
  outputGateRecursionMatrix :: "real list"
  blockInputRecursionMatrix :: "real list"
  inputGateBiasVector :: "real list"
  forgetGateBiasVector :: "real list"
  outputGateBiasVector :: "real list"
  blockInputBiasVector :: "real list"
  inputGatePeepholeVector :: "real list"
  forgetGatePeepholeVector :: "real list"
  outputGatePeepholeVector :: "real list"

record uni_lstm_params =
  uni_inputVectorSize :: nat
  uni_outputVectorSize :: nat
  uni_params :: lstm_params
  uni_weightParams :: lstm_weight_params
  uni_reverseInput :: bool
  uni_activations :: "activation_params list"

record bi_lstm_params =
  bi_inputVectorSize :: nat
  bi_outputVectorSize :: nat
  bi_params :: lstm_params
  bi_weightParams :: "lstm_weight_params list"
  bi_activationsForwardLSTM :: "activation_params list"
  bi_activationsBackwardLSTM :: "activation_params list"

datatype channel_order = CHANNEL_FIRST | CHANNEL_LAST

record batchnorm_params =
  bn_channels :: nat
  bn_gamma :: "real list"
  bn_beta :: "real list"
  bn_mean :: "real list"
  bn_variance :: "real list"
  bn_epsilon :: real
  bn_computeMeanVar :: bool
  bn_instanceNormalization :: bool

text \<open>The \<open>oneof layer\<close> of a layer record: at most one member is present.\<close>

datatype layer_params =
    LayerUnset
  | InnerProduct inner_product_params
  | Embedding embedding_params
  | Softmax
  | Activation activation_params
  | Concat bool
  | Add
  | Multiply
  | Dot bool
  | Maximum
  | Average
  | Upsample "nat list"
  | SequenceRepeat nat
  | Convolution convolution_params
  | Pooling pooling_params
  | Padding padding_params
  | Crop crop_params
  | SimpleRecurrent simple_recurrent_params
  | GRU gru_params
  | UniDirectionalLSTM uni_lstm_params
  | BiDirectionalLSTM bi_lstm_params
  | Flatten channel_order
  | Batchnorm batchnorm_params
  | Permute "nat list"
  | Reshape "int list" channel_order

record layer =
  lname :: string
  linput :: "string list"
  loutput :: "string list"
  lparams :: layer_params

subsection \<open>The builder\<close>

datatype network_mode = PlainNetwork | Classifier | Regressor

datatype class_labels = NoClassLabels | StringClassLabels "string list" | Int64ClassLabels "int list"

record builder =
  spec_input :: "feature list"
  spec_output :: "feature list"
  predictedFeatureName :: string
  predictedProbabilitiesName :: string
  nn_mode :: network_mode
  nn_layers :: "layer list"
  nn_classLabels :: class_labels

text \<open>\<open>nn_spec.layers.add()\<close> followed by writes to the new record: the record sits at the
  end of the list from the first moment, so the builder at any later point of the method is
  the old one with the record, as written so far, appended.\<close>

definition with_layer :: "builder \<Rightarrow> layer \<Rightarrow> builder" where
  "with_layer bld l = bld\<lparr>nn_layers := nn_layers bld @ [l]\<rparr>"

definition new_layer :: "string \<Rightarrow> string list \<Rightarrow> string list \<Rightarrow> layer_params \<Rightarrow> layer" where
  "new_layer name input_names output_names p =
     \<lparr>lname = name, linput = input_names, loutput = output_names, lparams = p\<rparr>"

subsection \<open>set\_input and set\_output\<close>

definition write_shape :: "feature \<Rightarrow> int list \<Rightarrow> feature" where
  \<comment> \<open>\<open>ClearField("shape")\<close>, \<open>shape.extend(...)\<close> and \<open>dataType = DOUBLE\<close> on \<open>type.multiArrayType\<close>\<close>
  "write_shape f shp = f\<lparr>ftype := MultiArrayType shp DOUBLE\<rparr>"

fun set_input_loop :: "nat \<Rightarrow> int list list \<Rightarrow> builder \<Rightarrow> outcome \<times> builder" where
  "set_input_loop idx [] bld = (Returned, bld)"
| "set_input_loop idx (dm # dims) bld =
     (if length dm = 3 \<or> length dm = 2 \<or> length dm = 1 then
        (let input_shape =
               (if length dm = 3 then [dm ! 0, dm ! 1, dm ! 2]
                else if length dm = 2 then [dm ! 1]
                else dm)
         in if idx < length (spec_input bld) then
              set_input_loop (Suc idx) dims
                (bld\<lparr>spec_input := (spec_input bld)[idx := write_shape (spec_input bld ! idx) input_shape]\<rparr>)
            else (Raised IndexError, bld))
      else (Raised RuntimeError, bld))"

definition set_input :: "string list \<Rightarrow> int list list \<Rightarrow> builder \<Rightarrow> outcome \<times> builder" where
  "set_input input_names input_dims bld = set_input_loop 0 input_dims bld"

fun set_output_loop :: "nat \<Rightarrow> int list list \<Rightarrow> builder \<Rightarrow> outcome \<times> builder" where
  "set_output_loop idx [] bld = (Returned, bld)"
| "set_output_loop idx (dm # dims) bld =
     (if idx < length (spec_output bld) then
        set_output_loop (Suc idx) dims
          (bld\<lparr>spec_output := (spec_output bld)[idx := write_shape (spec_output bld ! idx) dm]\<rparr>)
      else (Raised IndexError, bld))"

definition set_output :: "string list \<Rightarrow> int list list \<Rightarrow> builder \<Rightarrow> outcome \<times> builder" where
  "set_output output_names output_dims bld = set_output_loop 0 output_dims bld"

subsection \<open>set\_class\_labels\<close>

text \<open>A class label as the caller passes it: an \<open>int\<close>, a \<open>str\<close>, or a value of another
  type (a float).\<close>

datatype label = LInt int | LStr string | LFloat real

fun is_int :: "label \<Rightarrow> bool" where
  "is_int (LInt _) = True"
| "is_int _ = False"

fun is_str :: "label \<Rightarrow> bool" where
  "is_str (LStr _) = True"
| "is_str _ = False"

fun merge_dictionary :: "feature_type \<Rightarrow> feature_type" where
  \<comment> \<open>\<open>type.dictionaryType.MergeFromString('')\<close>\<close>
  "merge_dictionary (DictionaryType k) = DictionaryType k"
| "merge_dictionary _ = DictionaryType NoKeyType"

fun clear_int64ClassLabels :: "class_labels \<Rightarrow> class_labels" where
  "clear_int64ClassLabels (Int64ClassLabels _) = NoClassLabels"
| "clear_int64ClassLabels cl = cl"

fun clear_stringClassLabels :: "class_labels \<Rightarrow> class_labels" where
  "clear_stringClassLabels (StringClassLabels _) = NoClassLabels"
| "clear_stringClassLabels cl = cl"

fun int64_vector :: "class_labels \<Rightarrow> int list" where
  "int64_vector (Int64ClassLabels v) = v"
| "int64_vector _ = []"

fun string_vector :: "class_labels \<Rightarrow> string list" where
  "string_vector (StringClassLabels v) = v"
| "string_vector _ = []"

text \<open>The two statements \<open>for c in class_labels: ....vector.append(c)\<close>. The vectors are typed
  repeated fields: appending a value of another type raises \<open>TypeError\<close>, and the labels
  appended before it stay.\<close>

fun append_int64_labels :: "label list \<Rightarrow> builder \<Rightarrow> outcome \<times> builder" where
  "append_int64_labels [] bld = (Returned, bld)"
| "append_int64_labels (LInt c # cs) bld =
     append_int64_labels cs
       (bld\<lparr>nn_classLabels := Int64ClassLabels (int64_vector (nn_classLabels bld) @ [c])\<rparr>)"
| "append_int64_labels (_ # cs) bld = (Raised TypeError, bld)"

fun append_string_labels :: "label list \<Rightarrow> builder \<Rightarrow> outcome \<times> builder" where
  "append_string_labels [] bld = (Returned, bld)"
| "append_string_labels (LStr c # cs) bld =
     append_string_labels cs
       (bld\<lparr>nn_classLabels := StringClassLabels (string_vector (nn_classLabels bld) @ [c])\<rparr>)"
| "append_string_labels (_ # cs) bld = (Raised TypeError, bld)"

definition set_class_labels :: "label list \<Rightarrow> string \<Rightarrow> builder \<Rightarrow> outcome \<times> builder" where
  "set_class_labels class_labels predicted_feature_name bld =
     (case spec_output bld of
        [] \<Rightarrow> (Raised ValueError, bld)
      | probOutput # rest \<Rightarrow>
          (let probDict = probOutput\<lparr>ftype := merge_dictionary (ftype probOutput)\<rparr>;
               bld1 = bld\<lparr>spec_output := probDict # rest\<rparr>
           in case class_labels of
                [] \<Rightarrow> (Returned, bld1)
              | c0 # _ \<Rightarrow>
                  if \<not> (is_int c0 \<or> is_str c0) then (Raised TypeError, bld1)
                  else
                    (let classLabel = \<lparr>fname = predicted_feature_name, ftype = NoFeatureType\<rparr>;
                         bld2 = bld1\<lparr>predictedProbabilitiesName := fname probOutput,
                                     predictedFeatureName := predicted_feature_name,
                                     spec_output := probDict # rest @ [classLabel]\<rparr>
                     in if nn_mode bld \<noteq> Classifier then (Raised ValueError, bld2)
                        else if is_int c0 then
                          append_int64_labels class_labels
                            (bld2\<lparr>nn_classLabels := clear_int64ClassLabels (nn_classLabels bld2),
                                  spec_output :=
                                    probDict\<lparr>ftype := DictionaryType Int64KeyType\<rparr>
                                      # rest @ [classLabel\<lparr>ftype := Int64Type\<rparr>]\<rparr>)
                        else
                          append_string_labels class_labels
                            (bld2\<lparr>nn_classLabels := clear_stringClassLabels (nn_classLabels bld2),
                                  spec_output :=
                                    probDict\<lparr>ftype := DictionaryType StringKeyType\<rparr>
                                      # rest @ [classLabel\<lparr>ftype := StringType\<rparr>]\<rparr>))))"

subsection \<open>Layers without weights\<close>

definition add_dropout :: "string \<Rightarrow> string \<Rightarrow> string \<Rightarrow> builder \<Rightarrow> outcome \<times> builder" where
  "add_dropout name input_name output_name bld = (Returned, bld)"

definition add_elementwise ::
  "string \<Rightarrow> string list \<Rightarrow> string \<Rightarrow> string \<Rightarrow> builder \<Rightarrow> outcome \<times> builder" where
  "add_elementwise name input_names output_name mode bld =
     (let emit = (\<lambda>p. with_layer bld (new_layer name input_names [output_name] p))
      in if mode = ''CONCAT'' then (Returned, emit (Concat False))
         else if mode = ''SEQUENCE_CONCAT'' then (Returned, emit (Concat True))
         else if mode = ''ADD'' then (Returned, emit Add)
         else if mode = ''MULTIPLY'' then (Returned, emit Multiply)
         else if mode = ''COS'' then (Returned, emit (Dot True))
         else if mode = ''DOT'' then (Returned, emit (Dot False))
         else if mode = ''MAX'' then (Returned, emit Maximum)
         else if mode = ''AVE'' then (Returned, emit Average)
         else (Raised ValueError, emit LayerUnset))"

definition add_softmax :: "string \<Rightarrow> string \<Rightarrow> string \<Rightarrow> builder \<Rightarrow> outcome \<times> builder" where
  "add_softmax name input_name output_name bld =
     (Returned, with_layer bld (new_layer name [input_name] [output_name] Softmax))"

definition add_upsample ::
  "string \<Rightarrow> nat \<Rightarrow> nat \<Rightarrow> string \<Rightarrow> string \<Rightarrow> builder \<Rightarrow> outcome \<times> builder" where
  "add_upsample name scaling_factor_h scaling_factor_w input_name output_name bld =
     (Returned, with_layer bld
        (new_layer name [input_name] [output_name] (Upsample [scaling_factor_h, scaling_factor_w])))"

definition add_repeat :: "string \<Rightarrow> nat \<Rightarrow> string \<Rightarrow> string \<Rightarrow> builder \<Rightarrow> outcome \<times> builder" where
  "add_repeat name nrep input_name output_name bld =
     (Returned, with_layer bld (new_layer name [input_name] [output_name] (SequenceRepeat nrep)))"

definition add_permute ::
  "string \<Rightarrow> string \<Rightarrow> string \<Rightarrow> nat list \<Rightarrow> builder \<Rightarrow> outcome \<times> builder" where
  "add_permute name input_name output_name dm bld =
     (Returned, with_layer bld (new_layer name [input_name] [output_name] (Permute dm)))"

definition add_reshape ::
  "string \<Rightarrow> string \<Rightarrow> string \<Rightarrow> int list \<Rightarrow> int \<Rightarrow> builder \<Rightarrow> outcome \<times> builder" where
  "add_reshape name input_name output_name target_shape mode bld =
     (Returned, with_layer bld
        (new_layer name [input_name] [output_name]
           (Reshape target_shape (if mode = 0 then CHANNEL_FIRST else CHANNEL_LAST))))"

definition add_flatten :: "int \<Rightarrow> string \<Rightarrow> string \<Rightarrow> string \<Rightarrow> builder \<Rightarrow> outcome \<times> builder" where
  "add_flatten mode name input_name output_name bld =
     (let emit = (\<lambda>p. with_layer bld (new_layer name [input_name] [output_name] p))
      in if mode = 0 then (Returned, emit (Flatten CHANNEL_FIRST))
         else if mode = 1 then (Returned, emit (Flatten CHANNEL_LAST))
         else (Raised NotImplementedError, emit LayerUnset))"

definition add_padding ::
  "string \<Rightarrow> nat \<Rightarrow> nat \<Rightarrow> nat \<Rightarrow> nat \<Rightarrow> real \<Rightarrow> string \<Rightarrow> string \<Rightarrow> builder \<Rightarrow> outcome \<times> builder" where
  "add_padding name left right top_amount bottom val input_name output_name bld =
     (Returned, with_layer bld
        (new_layer name [input_name] [output_name]
           (Padding \<lparr>pad_constant_value = val,
                     pad_paddingAmounts = [(top_amount, bottom), (left, right)]\<rparr>)))"

definition add_crop ::
  "string \<Rightarrow> nat \<Rightarrow> nat \<Rightarrow> nat \<Rightarrow> nat \<Rightarrow> nat list \<Rightarrow> string \<Rightarrow> string \<Rightarrow> builder \<Rightarrow> outcome \<times> builder" where
  "add_crop name left right top_amount bottom offset input_name output_name bld =
     (Returned, with_layer bld
        (new_layer name [input_name] [output_name]
           (Crop \<lparr>crop_offset = offset, crop_cropAmounts = [(top_amount, bottom), (left, right)]\<rparr>)))"

definition add_batchnorm ::
  "string \<Rightarrow> nat \<Rightarrow> real list \<Rightarrow> real list \<Rightarrow> real list \<Rightarrow> real list \<Rightarrow> string \<Rightarrow> string
     \<Rightarrow> real \<Rightarrow> bool \<Rightarrow> bool \<Rightarrow> builder \<Rightarrow> outcome \<times> builder" where
  "add_batchnorm name channels gamma beta mean variance input_name output_name
       epsilon computeMeanVar instanceNormalization bld =
     (Returned, with_layer bld
        (new_layer name [input_name] [output_name]
           (Batchnorm \<lparr>bn_channels = channels, bn_gamma = gamma, bn_beta = beta, bn_mean = mean,
                       bn_variance = variance, bn_epsilon = epsilon,
                       bn_computeMeanVar = computeMeanVar,
                       bn_instanceNormalization = instanceNormalization\<rparr>)))"

text \<open>\<open>PoolingLayerParams.PoolingType.Value(layer_type)\<close>: the enum value of a name, or
  \<open>ValueError\<close> for a name the enum does not have.\<close>

definition pooling_type_value :: "string \<Rightarrow> error + pooling_kind" where
  "pooling_type_value layer_type =
     (if layer_type = ''MAX'' then Inr POOL_MAX
      else if layer_type = ''AVERAGE'' then Inr POOL_AVERAGE
      else if layer_type = ''L2'' then Inr POOL_L2
      else Inl ValueError)"

definition add_pooling ::
  "string \<Rightarrow> nat \<Rightarrow> nat \<Rightarrow> nat \<Rightarrow> nat \<Rightarrow> string \<Rightarrow> string \<Rightarrow> bool \<Rightarrow> bool \<Rightarrow> string \<Rightarrow> string
     \<Rightarrow> builder \<Rightarrow> outcome \<times> builder" where
  "add_pooling name height width stride_height stride_width layer_type padding_type
       exclude_pad_area is_global input_name output_name bld =
     (let emit = (\<lambda>p. with_layer bld (new_layer name [input_name] [output_name] p))
      in case pooling_type_value layer_type of
           Inl e \<Rightarrow> (Raised e, emit LayerUnset)
         | Inr t \<Rightarrow>
             (Returned, emit (Pooling
                \<lparr>pool_type = t,
                 pool_padding =
                   (if padding_type = ''VALID'' then ValidPadding [(0, 0), (0, 0)]
                    else if padding_type = ''SAME'' then SamePadding BOTTOM_RIGHT_HEAVY
                    else PaddingUnset),
                 pool_kernelSize = [height, width],
                 pool_stride = [stride_height, stride_width],
                 pool_avgPoolExcludePadding = exclude_pad_area,
                 pool_globalPooling = is_global\<rparr>)))"

subsection \<open>Layers with weights\<close>

definition add_inner_product ::
  "string \<Rightarrow> real list list \<Rightarrow> real list \<Rightarrow> nat \<Rightarrow> nat \<Rightarrow> bool \<Rightarrow> string \<Rightarrow> string
     \<Rightarrow> builder \<Rightarrow> outcome \<times> builder" where
  "add_inner_product name W Wb nB nC has_bias input_name output_name bld =
     (Returned, with_layer bld
        (new_layer name [input_name] [output_name]
           (InnerProduct \<lparr>ip_inputChannels = nB, ip_outputChannels = nC, ip_hasBias = has_bias,
                          ip_weights = concat W,
                          ip_bias = (if has_bias then Wb else [])\<rparr>)))"

definition add_embedding ::
  "string \<Rightarrow> real list list \<Rightarrow> real list \<Rightarrow> nat \<Rightarrow> nat \<Rightarrow> bool \<Rightarrow> string \<Rightarrow> string
     \<Rightarrow> builder \<Rightarrow> outcome \<times> builder" where
  "add_embedding name W Wb nB nC has_bias input_name output_name bld =
     (Returned, with_layer bld
        (new_layer name [input_name] [output_name]
           (Embedding \<lparr>emb_inputDim = nB, emb_outputChannels = nC, emb_hasBias = has_bias,
                       emb_weights = concat W,
                       emb_bias = (if has_bias then Wb else [])\<rparr>)))"

subsection \<open>add\_activation\<close>

text \<open>The \<open>params\<close> argument as callers pass it: \<open>None\<close>, a float, a list or tuple of floats,
  a one-dimensional array, or a list of one-dimensional arrays.\<close>

datatype act_arg = PNone | PScalar real | PList "real list" | PArray "real list" | PArrays "real list list"

text \<open>\<open>params[0]\<close> read into a float field.\<close>

fun first_float :: "act_arg \<Rightarrow> error + real" where
  "first_float PNone = Inl TypeError"
| "first_float (PScalar _) = Inl TypeError"
| "first_float (PList xs) = (if length xs < 1 then Inl IndexError else Inr (xs ! 0))"
| "first_float (PArray xs) = (if length xs < 1 then Inl IndexError else Inr (xs ! 0))"
| "first_float (PArrays as) = (if length as < 1 then Inl IndexError else Inl TypeError)"

text \<open>\<open>params[0], params[1]\<close> read into two float fields.\<close>

fun two_floats :: "act_arg \<Rightarrow> error + real \<times> real" where
  "two_floats PNone = Inl TypeError"
| "two_floats (PScalar _) = Inl TypeError"
| "two_floats (PList xs) = (if length xs < 2 then Inl IndexError else Inr (xs ! 0, xs ! 1))"
| "two_floats (PArray xs) = (if length xs < 2 then Inl IndexError else Inr (xs ! 0, xs ! 1))"
| "two_floats (PArrays as) = (if length as < 2 then Inl IndexError else Inl TypeError)"

text \<open>\<open>float(params)\<close>: a number, or an array of exactly one element.\<close>

fun to_float :: "act_arg \<Rightarrow> error + real" where
  "to_float (PScalar x) = Inr x"
| "to_float (PArray xs) = (if length xs = 1 then Inr (xs ! 0) else Inl TypeError)"
| "to_float _ = Inl TypeError"

text \<open>\<open>params.flatten()\<close>: only an array has the method.\<close>

fun flatten_arg :: "act_arg \<Rightarrow> error + real list" where
  "flatten_arg (PArray xs) = Inr xs"
| "flatten_arg _ = Inl AttributeError"

text \<open>\<open>alphas, betas = (params[0], params[1])\<close> followed by \<open>alphas.flatten()\<close> and
  \<open>betas.flatten()\<close>; an element of an array is a numpy scalar, whose \<open>flatten()\<close> is the
  one-element array.\<close>

fun two_flattened :: "act_arg \<Rightarrow> error + real list \<times> real list" where
  "two_flattened PNone = Inl TypeError"
| "two_flattened (PScalar _) = Inl TypeError"
| "two_flattened (PList xs) = (if length xs < 2 then Inl IndexError else Inl AttributeError)"
| "two_flattened (PArray xs) = (if length xs < 2 then Inl IndexError else Inr ([xs ! 0], [xs ! 1]))"
| "two_flattened (PArrays as) = (if length as < 2 then Inl IndexError else Inr (as ! 0, as ! 1))"

definition add_activation ::
  "string \<Rightarrow> string \<Rightarrow> string \<Rightarrow> string \<Rightarrow> act_arg \<Rightarrow> builder \<Rightarrow> outcome \<times> builder" where
  "add_activation name non_linearity input_name output_name params bld =
     (let emit = (\<lambda>p. with_layer bld (new_layer name [input_name] [output_name] p))
      in if non_linearity = ''RELU'' then (Returned, emit (Activation ActReLU))
         else if non_linearity = ''SIGMOID'' then (Returned, emit (Activation ActSigmoid))
         else if non_linearity = ''TANH'' then (Returned, emit (Activation ActTanh))
         else if non_linearity = ''SCALED_TANH'' then
           (if params = PNone then (Returned, emit (Activation (ActScaledTanh 0 0)))
            else case two_floats params of
                   Inl e \<Rightarrow> (Raised e, emit (Activation (ActScaledTanh 0 0)))
                 | Inr (alpha, beta) \<Rightarrow> (Returned, emit (Activation (ActScaledTanh alpha beta))))
         else if non_linearity = ''SOFTPLUS'' then (Returned, emit (Activation ActSoftplus))
         else if non_linearity = ''SOFTSIGN'' then (Returned, emit (Activation ActSoftsign))
         else if non_linearity = ''SIGMOID_HARD'' then
           (if params = PNone then (Returned, emit (Activation (ActSigmoidHard (2 / 10) (5 / 10))))
            else case two_floats params of
                   Inl e \<Rightarrow> (Raised e, emit LayerUnset)
                 | Inr (alpha, beta) \<Rightarrow> (Returned, emit (Activation (ActSigmoidHard alpha beta))))
         else if non_linearity = ''LEAKYRELU'' then
           (if params = PNone then (Returned, emit (Activation (ActLeakyReLU (3 / 10))))
            else case first_float params of
                   Inl e \<Rightarrow> (Raised e, emit LayerUnset)
                 | Inr alpha \<Rightarrow> (Returned, emit (Activation (ActLeakyReLU alpha))))
         else if non_linearity = ''PRELU'' then
           (case flatten_arg params of
              Inl e \<Rightarrow> (Raised e, emit LayerUnset)
            | Inr alpha \<Rightarrow> (Returned, emit (Activation (ActPReLU alpha))))
         else if non_linearity = ''ELU'' then
           (case to_float params of
              Inl e \<Rightarrow> (Raised e, emit LayerUnset)
            | Inr alpha \<Rightarrow> (Returned, emit (Activation (ActELU alpha))))
         else if non_linearity = ''PARAMETRICSOFTPLUS'' then
           (case two_flattened params of
              Inl e \<Rightarrow> (Raised e, emit LayerUnset)
            | Inr (alphas, betas) \<Rightarrow> (Returned, emit (Activation (ActParametricSoftplus alphas betas))))
         else if non_linearity = ''THRESHOLDEDRELU'' then
           (if params = PNone then (Returned, emit (Activation (ActThresholdedReLU 1)))
            else case to_float params of
                   Inl e \<Rightarrow> (Raised e, emit LayerUnset)
                 | Inr theta \<Rightarrow> (Returned, emit (Activation (ActThresholdedReLU theta))))
         else if non_linearity = ''LINEAR'' then (Returned, emit (Activation ActLinear))
         else (Raised TypeError, emit LayerUnset))"

subsection \<open>Arrays\<close>

text \<open>The shape of a rank-4 array. An array with an empty axis has no elements, whatever its
  later axes are; they read as 0 here.\<close>

definition shape4 :: "'a list list list list \<Rightarrow> nat \<times> nat \<times> nat \<times> nat" where
  "shape4 W =
     (length W,
      (case W of a # _ \<Rightarrow> length a | _ \<Rightarrow> 0),
      (case W of (b # _) # _ \<Rightarrow> length b | _ \<Rightarrow> 0),
      (case W of ((c # _) # _) # _ \<Rightarrow> length c | _ \<Rightarrow> 0))"

text \<open>\<open>W.transpose((3,2,0,1))\<close>: the array \<open>T\<close> of shape \<open>(d3,d2,d0,d1)\<close> with
  \<open>T[i3,i2,i0,i1] = W[i0,i1,i2,i3]\<close>.\<close>

definition transpose_3201 :: "'a list list list list \<Rightarrow> 'a list list list list" where
  "transpose_3201 W =
     (case shape4 W of (d0, d1, d2, d3) \<Rightarrow>
        map (\<lambda>i3. map (\<lambda>i2. map (\<lambda>i0. map (\<lambda>i1. W ! i0 ! i1 ! i2 ! i3)
          [0..<d1]) [0..<d0]) [0..<d2]) [0..<d3])"

text \<open>\<open>W.transpose((2,3,0,1))\<close>: the array \<open>T\<close> of shape \<open>(d2,d3,d0,d1)\<close> with
  \<open>T[i2,i3,i0,i1] = W[i0,i1,i2,i3]\<close>.\<close>

definition transpose_2301 :: "'a list list list list \<Rightarrow> 'a list list list list" where
  "transpose_2301 W =
     (case shape4 W of (d0, d1, d2, d3) \<Rightarrow>
        map (\<lambda>i2. map (\<lambda>i3. map (\<lambda>i0. map (\<lambda>i1. W ! i0 ! i1 ! i2 ! i3)
          [0..<d1]) [0..<d0]) [0..<d3]) [0..<d2])"

definition flatten4 :: "'a list list list list \<Rightarrow> 'a list" where
  "flatten4 W = concat (concat (concat W))"

text \<open>\<open>for idx in xrange(n): out.append(float(xs[idx]))\<close>, onto an empty field: the first
  \<open>n\<close> elements, or all of them and then \<open>IndexError\<close>.\<close>

definition copy_range :: "nat \<Rightarrow> 'a list \<Rightarrow> outcome \<times> 'a list" where
  "copy_range n xs = (if n \<le> length xs then (Returned, take n xs) else (Raised IndexError, xs))"

text \<open>\<open>xs[lo:hi]\<close> for bounds that are not negative.\<close>

definition py_slice :: "'a list \<Rightarrow> nat \<Rightarrow> nat \<Rightarrow> 'a list" where
  "py_slice xs lo hi = drop lo (take hi xs)"

text \<open>\<open>W[0, 0]\<close> of a rank-4 array.\<close>

fun index00 :: "'a list list list list \<Rightarrow> error + 'a list list" where
  "index00 ((M # _) # _) = Inr M"
| "index00 _ = Inl IndexError"

text \<open>\<open>b is not None and b.any()\<close>.\<close>

fun not_none_and_any :: "real list option \<Rightarrow> bool" where
  "not_none_and_any None = False"
| "not_none_and_any (Some b) = list_ex (\<lambda>x. x \<noteq> 0) b"

subsection \<open>add\_convolution\<close>

definition add_convolution ::
  "string \<Rightarrow> nat \<Rightarrow> nat \<Rightarrow> nat \<Rightarrow> nat \<Rightarrow> nat \<Rightarrow> nat \<Rightarrow> string \<Rightarrow> nat \<Rightarrow> real list list list list
     \<Rightarrow> real list \<Rightarrow> bool \<Rightarrow> bool \<Rightarrow> nat list \<Rightarrow> string \<Rightarrow> string \<Rightarrow> builder \<Rightarrow> outcome \<times> builder" where
  "add_convolution name kernelChannels outputChannels height width stride_height stride_width
       borderMode groups W b has_bias is_deconv output_shape input_name output_name bld =
     (let emit = (\<lambda>p. with_layer bld (new_layer name [input_name] [output_name] (Convolution p)));
          p0 = \<lparr>conv_isDeconvolution = is_deconv, conv_outputShape = output_shape,
                conv_outputChannels = outputChannels, conv_kernelChannels = kernelChannels,
                conv_kernelSize = [height, width], conv_stride = [stride_height, stride_width],
                conv_padding = PaddingUnset, conv_nGroups = 0, conv_hasBias = False,
                conv_weights = [], conv_bias = []\<rparr>
      in if borderMode \<noteq> ''valid'' \<and> borderMode \<noteq> ''same'' then
           (Raised NotImplementedError, emit p0)
         else
           (let p1 = p0\<lparr>conv_padding :=
                          (if borderMode = ''valid'' then ValidPadding [(0, 0), (0, 0)]
                           else SamePadding BOTTOM_RIGHT_HEAVY),
                        conv_nGroups := groups, conv_hasBias := has_bias\<rparr>;
                Wt = (if \<not> is_deconv then flatten4 (transpose_3201 W)
                      else flatten4 (transpose_2301 W))
            in case copy_range (outputChannels * kernelChannels * height * width) Wt of
                 (Raised e, ws) \<Rightarrow> (Raised e, emit (p1\<lparr>conv_weights := ws\<rparr>))
               | (Returned, ws) \<Rightarrow>
                   if has_bias then
                     (case copy_range outputChannels b of
                        (r, bs) \<Rightarrow> (r, emit (p1\<lparr>conv_weights := ws, conv_bias := bs\<rparr>)))
                   else (Returned, emit (p1\<lparr>conv_weights := ws\<rparr>))))"

subsection \<open>Recurrent layers\<close>

definition set_recurrent_activation :: "string \<Rightarrow> error + activation_params" where
  "set_recurrent_activation activation =
     (if activation = ''SIGMOID'' then Inr ActSigmoid
      else if activation = ''TANH'' then Inr ActTanh
      else if activation = ''LINEAR'' then Inr ActLinear
      else if activation = ''SIGMOID_HARD'' then Inr (ActSigmoidHard 0 0)
      else if activation = ''SCALED_TANH'' then Inr (ActScaledTanh 0 0)
      else if activation = ''RELU'' then Inr ActReLU
      else Inl TypeError)"

text \<open>The entries of a repeated activation field are first added, all empty, and then set one
  after the other; the first unsupported name raises and leaves the later entries empty.\<close>

fun set_recurrent_activations :: "string list \<Rightarrow> outcome \<times> activation_params list" where
  "set_recurrent_activations [] = (Returned, [])"
| "set_recurrent_activations (a # as) =
     (case set_recurrent_activation a of
        Inl e \<Rightarrow> (Raised e, replicate (Suc (length as)) ActivationUnset)
      | Inr f \<Rightarrow> (case set_recurrent_activations as of (r, fs) \<Rightarrow> (r, f # fs)))"

definition add_vanilla_rnn ::
  "string \<Rightarrow> real list list \<Rightarrow> real list list \<Rightarrow> real list option \<Rightarrow> string \<Rightarrow> nat \<Rightarrow> nat
     \<Rightarrow> string list \<Rightarrow> string list \<Rightarrow> bool \<Rightarrow> bool \<Rightarrow> builder \<Rightarrow> outcome \<times> builder" where
  "add_vanilla_rnn name W_h W_x b activation hidden_size input_size input_names output_names
       output_all reverse_input bld =
     (let emit = (\<lambda>p. with_layer bld (new_layer name input_names output_names (SimpleRecurrent p)));
          p0 = \<lparr>rnn_reverseInput = reverse_input, rnn_inputVectorSize = input_size,
                rnn_outputVectorSize = hidden_size, rnn_hasBiasVector = not_none_and_any b,
                rnn_sequenceOutput = output_all, rnn_activation = ActivationUnset,
                rnn_weightMatrix = [], rnn_recursionMatrix = [], rnn_biasVector = []\<rparr>
      in case set_recurrent_activation activation of
           Inl e \<Rightarrow> (Raised e, emit p0)
         | Inr f \<Rightarrow>
             (Returned, emit (p0\<lparr>rnn_activation := f,
                                 rnn_weightMatrix := concat W_x,
                                 rnn_recursionMatrix := concat W_h,
                                 rnn_biasVector :=
                                   (if not_none_and_any b then the b else [])\<rparr>)))"

definition add_gru ::
  "string \<Rightarrow> real list list list list \<Rightarrow> real list list list list \<Rightarrow> real list option
     \<Rightarrow> string \<Rightarrow> string \<Rightarrow> nat \<Rightarrow> nat \<Rightarrow> string list \<Rightarrow> string list \<Rightarrow> bool \<Rightarrow> bool
     \<Rightarrow> builder \<Rightarrow> outcome \<times> builder" where
  "add_gru name W_h W_x b activation inner_activation hidden_size input_size input_names
       output_names output_all reverse_input bld =
     (let emit = (\<lambda>p. with_layer bld (new_layer name input_names output_names (GRU p)));
          p0 = \<lparr>gru_inputVectorSize = input_size, gru_outputVectorSize = hidden_size,
                gru_hasBiasVectors = not_none_and_any b, gru_sequenceOutput = output_all,
                gru_reverseInput = reverse_input, gru_activations = [],
                gru_updateGateWeightMatrix = [], gru_resetGateWeightMatrix = [],
                gru_outputGateWeightMatrix = [], gru_updateGateRecursionMatrix = [],
                gru_resetGateRecursionMatrix = [], gru_outputGateRecursionMatrix = [],
                gru_updateGateBiasVector = [], gru_resetGateBiasVector = [],
                gru_outputGateBiasVector = []\<rparr>
      in case set_recurrent_activations [inner_activation, activation] of
           (Raised e, fs) \<Rightarrow> (Raised e, emit (p0\<lparr>gru_activations := fs\<rparr>))
         | (Returned, fs) \<Rightarrow>
             (let p1 = p0\<lparr>gru_activations := fs\<rparr>
              in case index00 W_x of
                   Inl e \<Rightarrow> (Raised e, emit p1)
                 | Inr X \<Rightarrow>
                     (let p2 = p1\<lparr>gru_updateGateWeightMatrix :=
                                     concat (py_slice X (0 * hidden_size) (1 * hidden_size)),
                                   gru_resetGateWeightMatrix :=
                                     concat (py_slice X (1 * hidden_size) (2 * hidden_size)),
                                   gru_outputGateWeightMatrix :=
                                     concat (py_slice X (2 * hidden_size) (3 * hidden_size))\<rparr>
                      in case index00 W_h of
                           Inl e \<Rightarrow> (Raised e, emit p2)
                         | Inr H \<Rightarrow>
                             (let p3 = p2\<lparr>gru_updateGateRecursionMatrix :=
                                             concat (py_slice H (0 * hidden_size) (1 * hidden_size)),
                                           gru_resetGateRecursionMatrix :=
                                             concat (py_slice H (1 * hidden_size) (2 * hidden_size)),
                                           gru_outputGateRecursionMatrix :=
                                             concat (py_slice H (2 * hidden_size) (3 * hidden_size))\<rparr>
                              in if not_none_and_any b then
                                   (Returned, emit (p3
                                      \<lparr>gru_updateGateBiasVector :=
                                         py_slice (the b) (0 * hidden_size) (1 * hidden_size),
                                       gru_resetGateBiasVector :=
                                         py_slice (the b) (1 * hidden_size) (2 * hidden_size),
                                       gru_outputGateBiasVector :=
                                         py_slice (the b) (2 * hidden_size) (3 * hidden_size)\<rparr>))
                                 else (Returned, emit p3)))))"

definition empty_lstm_weights :: lstm_weight_params where
  "empty_lstm_weights =
     \<lparr>inputGateWeightMatrix = [], forgetGateWeightMatrix = [], outputGateWeightMatrix = [],
      blockInputWeightMatrix = [], inputGateRecursionMatrix = [], forgetGateRecursionMatrix = [],
      outputGateRecursionMatrix = [], blockInputRecursionMatrix = [], inputGateBiasVector = [],
      forgetGateBiasVector = [], outputGateBiasVector = [], blockInputBiasVector = [],
      inputGatePeepholeVector = [], forgetGatePeepholeVector = [],
      outputGatePeepholeVector = []\<rparr>"

text \<open>The statements that fill one \<open>weightParams\<close> message: the source has them once in
  \<open>add_unilstm\<close> and twice in \<open>add_bidirlstm\<close>. \<open>bias_guard\<close> is the value of the condition
  in front of the four bias lines and \<open>bias\<close> the array those lines slice; subscripting
  \<open>None\<close> raises \<open>TypeError\<close>.\<close>

definition write_lstm_weights ::
  "real list list list list \<Rightarrow> real list list list list \<Rightarrow> bool \<Rightarrow> real list option
     \<Rightarrow> real list option \<Rightarrow> nat \<Rightarrow> outcome \<times> lstm_weight_params" where
  "write_lstm_weights W_h W_x bias_guard bias peep hidden_size =
     (case index00 W_x of
        Inl e \<Rightarrow> (Raised e, empty_lstm_weights)
      | Inr X \<Rightarrow>
          (let w1 = empty_lstm_weights
                 \<lparr>inputGateWeightMatrix := concat (py_slice X (0 * hidden_size) (1 * hidden_size)),
                  forgetGateWeightMatrix := concat (py_slice X (1 * hidden_size) (2 * hidden_size)),
                  outputGateWeightMatrix := concat (py_slice X (2 * hidden_size) (3 * hidden_size)),
                  blockInputWeightMatrix := concat (py_slice X (3 * hidden_size) (4 * hidden_size))\<rparr>
           in case index00 W_h of
                Inl e \<Rightarrow> (Raised e, w1)
              | Inr H \<Rightarrow>
                  (let w2 = w1
                         \<lparr>inputGateRecursionMatrix :=
                            concat (py_slice H (0 * hidden_size) (1 * hidden_size)),
                          forgetGateRecursionMatrix :=
                            concat (py_slice H (1 * hidden_size) (2 * hidden_size)),
                          outputGateRecursionMatrix :=
                            concat (py_slice H (2 * hidden_size) (3 * hidden_size)),
                          blockInputRecursionMatrix :=
                            concat (py_slice H (3 * hidden_size) (4 * hidden_size))\<rparr>;
                       w3 = (if bias_guard then
                               (case bias of
                                  None \<Rightarrow> (Raised TypeError, w2)
                                | Some v \<Rightarrow>
                                    (Returned, w2
                                       \<lparr>inputGateBiasVector :=
                                          py_slice v (0 * hidden_size) (1 * hidden_size),
                                        forgetGateBiasVector :=
                                          py_slice v (1 * hidden_size) (2 * hidden_size),
                                        outputGateBiasVector :=
                                          py_slice v (2 * hidden_size) (3 * hidden_size),
                                        blockInputBiasVector :=
                                          py_slice v (3 * hidden_size) (4 * hidden_size)\<rparr>))
                             else (Returned, w2))
                   in case w3 of
                        (Raised e, w) \<Rightarrow> (Raised e, w)
                      | (Returned, w) \<Rightarrow>
                          if not_none_and_any peep then
                            (Returned, w
                               \<lparr>inputGatePeepholeVector :=
                                  py_slice (the peep) (0 * hidden_size) (1 * hidden_size),
                                forgetGatePeepholeVector :=
                                  py_slice (the peep) (1 * hidden_size) (2 * hidden_size),
                                outputGatePeepholeVector :=
                                  py_slice (the peep) (2 * hidden_size) (3 * hidden_size)\<rparr>)
                          else (Returned, w))))"

definition add_unilstm ::
  "string \<Rightarrow> nat \<Rightarrow> nat \<Rightarrow> string list \<Rightarrow> string list \<Rightarrow> real list list list list
     \<Rightarrow> real list list list list \<Rightarrow> string \<Rightarrow> string \<Rightarrow> string \<Rightarrow> real list option
     \<Rightarrow> real list option \<Rightarrow> bool \<Rightarrow> bool \<Rightarrow> bool \<Rightarrow> real \<Rightarrow> bool \<Rightarrow> builder \<Rightarrow> outcome \<times> builder" where
  "add_unilstm name hidden_size input_size input_names output_names W_h W_x inner_activation
       cell_state_update_activation output_activation b peep output_all forget_bias
       coupled_input_forget_gate cell_clip_threshold reverse_input bld =
     (let emit = (\<lambda>p. with_layer bld (new_layer name input_names output_names (UniDirectionalLSTM p)));
          p0 = \<lparr>uni_inputVectorSize = input_size, uni_outputVectorSize = hidden_size,
                uni_params =
                  \<lparr>sequenceOutput = output_all, forgetBias = forget_bias,
                   hasBiasVectors = not_none_and_any b,
                   hasPeepholeVectors = not_none_and_any peep,
                   coupledInputAndForgetGate = coupled_input_forget_gate,
                   cellClipThreshold = cell_clip_threshold\<rparr>,
                uni_weightParams = empty_lstm_weights, uni_reverseInput = reverse_input,
                uni_activations = []\<rparr>
      in case set_recurrent_activations
                [inner_activation, cell_state_update_activation, output_activation] of
           (Raised e, fs) \<Rightarrow> (Raised e, emit (p0\<lparr>uni_activations := fs\<rparr>))
         | (Returned, fs) \<Rightarrow>
             (case write_lstm_weights W_h W_x (not_none_and_any b) b peep hidden_size of
                (r, w) \<Rightarrow> (r, emit (p0\<lparr>uni_activations := fs, uni_weightParams := w\<rparr>))))"

definition add_bidirlstm ::
  "string \<Rightarrow> nat \<Rightarrow> nat \<Rightarrow> string list \<Rightarrow> string list \<Rightarrow> real list list list list
     \<Rightarrow> real list list list list \<Rightarrow> real list list list list \<Rightarrow> real list list list list
     \<Rightarrow> string \<Rightarrow> string \<Rightarrow> string \<Rightarrow> real list option \<Rightarrow> real list option
     \<Rightarrow> real list option \<Rightarrow> real list option \<Rightarrow> bool \<Rightarrow> bool \<Rightarrow> bool \<Rightarrow> real
     \<Rightarrow> builder \<Rightarrow> outcome \<times> builder" where
  "add_bidirlstm name hidden_size input_size input_names output_names W_h W_x W_h_back W_x_back
       inner_activation cell_state_update_activation output_activation b b_back peep peep_back
       output_all forget_bias coupled_input_forget_gate cell_clip_threshold bld =
     (let emit = (\<lambda>p. with_layer bld (new_layer name input_names output_names (BiDirectionalLSTM p)));
          acts = [inner_activation, cell_state_update_activation, output_activation];
          p0 = \<lparr>bi_inputVectorSize = input_size, bi_outputVectorSize = hidden_size,
                bi_params =
                  \<lparr>sequenceOutput = output_all, forgetBias = forget_bias,
                   hasBiasVectors = not_none_and_any b,
                   hasPeepholeVectors = not_none_and_any peep,
                   coupledInputAndForgetGate = coupled_input_forget_gate,
                   cellClipThreshold = cell_clip_threshold\<rparr>,
                bi_weightParams = [empty_lstm_weights, empty_lstm_weights],
                bi_activationsForwardLSTM = [], bi_activationsBackwardLSTM = []\<rparr>
      in case set_recurrent_activations acts of
           (Raised e, fs) \<Rightarrow> (Raised e, emit (p0\<lparr>bi_activationsForwardLSTM := fs\<rparr>))
         | (Returned, fs) \<Rightarrow>
             (case set_recurrent_activations acts of
                (Raised e, gs) \<Rightarrow>
                  (Raised e, emit (p0\<lparr>bi_activationsForwardLSTM := fs,
                                       bi_activationsBackwardLSTM := gs\<rparr>))
              | (Returned, gs) \<Rightarrow>
                  (let p1 = p0\<lparr>bi_activationsForwardLSTM := fs, bi_activationsBackwardLSTM := gs\<rparr>
                   in case write_lstm_weights W_h W_x (not_none_and_any b) b peep hidden_size of
                        (Raised e, w) \<Rightarrow>
                          (Raised e, emit (p1\<lparr>bi_weightParams := [w, empty_lstm_weights]\<rparr>))
                      | (Returned, w) \<Rightarrow>
                          (case write_lstm_weights W_h_back W_x_back (not_none_and_any b) b_back
                                  peep_back hidden_size of
                             (r, w_back) \<Rightarrow> (r, emit (p1\<lparr>bi_weightParams := [w, w_back]\<rparr>))))))"

subsection \<open>Sequences of layer-factory calls\<close>

text \<open>One constructor per layer method, with the method's parameters in the order of its
  signature.\<close>

datatype call =
    AddInnerProduct string "real list list" "real list" nat nat bool string string
  | AddEmbedding string "real list list" "real list" nat nat bool string string
  | AddSoftmax string string string
  | AddActivation string string string string act_arg
  | AddElementwise string "string list" string string
  | AddUpsample string nat nat string string
  | AddRepeat string nat string string
  | AddConvolution string nat nat nat nat nat nat string nat "real list list list list"
      "real list" bool bool "nat list" string string
  | AddPooling string nat nat nat nat string string bool bool string string
  | AddPadding string nat nat nat nat real string string
  | AddCrop string nat nat nat nat "nat list" string string
  | AddVanillaRnn string "real list list" "real list list" "real list option" string nat nat
      "string list" "string list" bool bool
  | AddGru string "real list list list list" "real list list list list" "real list option"
      string string nat nat "string list" "string list" bool bool
  | AddUnilstm string nat nat "string list" "string list" "real list list list list"
      "real list list list list" string string string "real list option" "real list option"
      bool bool bool real bool
  | AddBidirlstm string nat nat "string list" "string list" "real list list list list"
      "real list list list list" "real list list list list" "real list list list list"
      string string string "real list option" "real list option" "real list option"
      "real list option" bool bool bool real
  | AddFlatten int string string string
  | AddBatchnorm string nat "real list" "real list" "real list" "real list" string string
      real bool bool
  | AddPermute string string string "nat list"
  | AddReshape string string string "int list" int
  | AddDropout string string string

fun run :: "call \<Rightarrow> builder \<Rightarrow> outcome \<times> builder" where
  "run (AddInnerProduct name W Wb nB nC has_bias input_name output_name) =
     add_inner_product name W Wb nB nC has_bias input_name output_name"
| "run (AddEmbedding name W Wb nB nC has_bias input_name output_name) =
     add_embedding name W Wb nB nC has_bias input_name output_name"
| "run (AddSoftmax name input_name output_name) = add_softmax name input_name output_name"
| "run (AddActivation name non_linearity input_name output_name params) =
     add_activation name non_linearity input_name output_name params"
| "run (AddElementwise name input_names output_name mode) =
     add_elementwise name input_names output_name mode"
| "run (AddUpsample name scaling_factor_h scaling_factor_w input_name output_name) =
     add_upsample name scaling_factor_h scaling_factor_w input_name output_name"
| "run (AddRepeat name nrep input_name output_name) = add_repeat name nrep input_name output_name"
| "run (AddConvolution name kernelChannels outputChannels height width stride_height stride_width
          borderMode groups W b has_bias is_deconv output_shape input_name output_name) =
     add_convolution name kernelChannels outputChannels height width stride_height stride_width
       borderMode groups W b has_bias is_deconv output_shape input_name output_name"
| "run (AddPooling name height width stride_height stride_width layer_type padding_type
          exclude_pad_area is_global input_name output_name) =
     add_pooling name height width stride_height stride_width layer_type padding_type
       exclude_pad_area is_global input_name output_name"
| "run (AddPadding name left right top_amount bottom val input_name output_name) =
     add_padding name left right top_amount bottom val input_name output_name"
| "run (AddCrop name left right top_amount bottom offset input_name output_name) =
     add_crop name left right top_amount bottom offset input_name output_name"
| "run (AddVanillaRnn name W_h W_x b activation hidden_size input_size input_names output_names
          output_all reverse_input) =
     add_vanilla_rnn name W_h W_x b activation hidden_size input_size input_names output_names
       output_all reverse_input"
| "run (AddGru name W_h W_x b activation inner_activation hidden_size input_size input_names
          output_names output_all reverse_input) =
     add_gru name W_h W_x b activation inner_activation hidden_size input_size input_names
       output_names output_all reverse_input"
| "run (AddUnilstm name hidden_size input_size input_names output_names W_h W_x inner_activation
          cell_state_update_activation output_activation b peep output_all forget_bias
          coupled_input_forget_gate cell_clip_threshold reverse_input) =
     add_unilstm name hidden_size input_size input_names output_names W_h W_x inner_activation
       cell_state_update_activation output_activation b peep output_all forget_bias
       coupled_input_forget_gate cell_clip_threshold reverse_input"
| "run (AddBidirlstm name hidden_size input_size input_names output_names W_h W_x W_h_back
          W_x_back inner_activation cell_state_update_activation output_activation b b_back peep
          peep_back output_all forget_bias coupled_input_forget_gate cell_clip_threshold) =
     add_bidirlstm name hidden_size input_size input_names output_names W_h W_x W_h_back
       W_x_back inner_activation cell_state_update_activation output_activation b b_back peep
       peep_back output_all forget_bias coupled_input_forget_gate cell_clip_threshold"
| "run (AddFlatten mode name input_name output_name) = add_flatten mode name input_name output_name"
| "run (AddBatchnorm name channels gamma beta mean variance input_name output_name epsilon
          computeMeanVar instanceNormalization) =
     add_batchnorm name channels gamma beta mean variance input_name output_name epsilon
       computeMeanVar instanceNormalization"
| "run (AddPermute name input_name output_name dm) = add_permute name input_name output_name dm"
| "run (AddReshape name input_name output_name target_shape mode) =
     add_reshape name input_name output_name target_shape mode"
| "run (AddDropout name input_name output_name) = add_dropout name input_name output_name"

text \<open>Calls made one after the other; an exception ends the sequence.\<close>

fun run_all :: "call list \<Rightarrow> builder \<Rightarrow> outcome \<times> builder" where
  "run_all [] bld = (Returned, bld)"
| "run_all (c # cs) bld =
     (case run c bld of
        (Returned, bld') \<Rightarrow> run_all cs bld'
      | (Raised e, bld') \<Rightarrow> (Raised e, bld'))"

text \<open>\<open>WhichOneof('layer')\<close>: the name of the member that is present, if any.\<close>

fun which_layer :: "layer_params \<Rightarrow> string option" where
  "which_layer LayerUnset = None"
| "which_layer (InnerProduct _) = Some ''innerProduct''"
| "which_layer (Embedding _) = Some ''embedding''"
| "which_layer Softmax = Some ''softmax''"
| "which_layer (Activation _) = Some ''activation''"
| "which_layer (Concat _) = Some ''concat''"
| "which_layer Add = Some ''add''"
| "which_layer Multiply = Some ''multiply''"
| "which_layer (Dot _) = Some ''dot''"
| "which_layer Maximum = Some ''max''"
| "which_layer Average = Some ''average''"
| "which_layer (Upsample _) = Some ''upsample''"
| "which_layer (SequenceRepeat _) = Some ''sequenceRepeat''"
| "which_layer (Convolution _) = Some ''convolution''"
| "which_layer (Pooling _) = Some ''pooling''"
| "which_layer (Padding _) = Some ''padding''"
| "which_layer (Crop _) = Some ''crop''"
| "which_layer (SimpleRecurrent _) = Some ''simpleRecurrent''"
| "which_layer (GRU _) = Some ''gru''"
| "which_layer (UniDirectionalLSTM _) = Some ''uniDirectionalLSTM''"
| "which_layer (BiDirectionalLSTM _) = Some ''biDirectionalLSTM''"
| "which_layer (Flatten _) = Some ''flatten''"
| "which_layer (Batchnorm _) = Some ''batchnorm''"
| "which_layer (Permute _) = Some ''permute''"
| "which_layer (Reshape _ _) = Some ''reshape''"

text \<open>The layer name a call passes, and the parameter variant that belongs to the operation
  (for the elementwise operation, to its mode).\<close>

fun call_name :: "call \<Rightarrow> string" where
  "call_name (AddInnerProduct name _ _ _ _ _ _ _) = name"
| "call_name (AddEmbedding name _ _ _ _ _ _ _) = name"
| "call_name (AddSoftmax name _ _) = name"
| "call_name (AddActivation name _ _ _ _) = name"
| "call_name (AddElementwise name _ _ _) = name"
| "call_name (AddUpsample name _ _ _ _) = name"
| "call_name (AddRepeat name _ _ _) = name"
| "call_name (AddConvolution name _ _ _ _ _ _ _ _ _ _ _ _ _ _ _) = name"
| "call_name (AddPooling name _ _ _ _ _ _ _ _ _ _) = name"
| "call_name (AddPadding name _ _ _ _ _ _ _) = name"
| "call_name (AddCrop name _ _ _ _ _ _ _) = name"
| "call_name (AddVanillaRnn name _ _ _ _ _ _ _ _ _ _) = name"
| "call_name (AddGru name _ _ _ _ _ _ _ _ _ _ _) = name"
| "call_name (AddUnilstm name _ _ _ _ _ _ _ _ _ _ _ _ _ _ _ _) = name"
| "call_name (AddBidirlstm name _ _ _ _ _ _ _ _ _ _ _ _ _ _ _ _ _ _ _) = name"
| "call_name (AddFlatten _ name _ _) = name"
| "call_name (AddBatchnorm name _ _ _ _ _ _ _ _ _ _) = name"
| "call_name (AddPermute name _ _ _) = name"
| "call_name (AddReshape name _ _ _ _) = name"
| "call_name (AddDropout name _ _) = name"

definition elementwise_variant :: "string \<Rightarrow> string option" where
  "elementwise_variant mode =
     (if mode = ''CONCAT'' \<or> mode = ''SEQUENCE_CONCAT'' then Some ''concat''
      else if mode = ''ADD'' then Some ''add''
      else if mode = ''MULTIPLY'' then Some ''multiply''
      else if mode = ''COS'' \<or> mode = ''DOT'' then Some ''dot''
      else if mode = ''MAX'' then Some ''max''
      else if mode = ''AVE'' then Some ''average''
      else None)"

fun call_variant :: "call \<Rightarrow> string option" where
  "call_variant (AddInnerProduct _ _ _ _ _ _ _ _) = Some ''innerProduct''"
| "call_variant (AddEmbedding _ _ _ _ _ _ _ _) = Some ''embedding''"
| "call_variant (AddSoftmax _ _ _) = Some ''softmax''"
| "call_variant (AddActivation _ _ _ _ _) = Some ''activation''"
| "call_variant (AddElementwise _ _ _ mode) = elementwise_variant mode"
| "call_variant (AddUpsample _ _ _ _ _) = Some ''upsample''"
| "call_variant (AddRepeat _ _ _ _) = Some ''sequenceRepeat''"
| "call_variant (AddConvolution _ _ _ _ _ _ _ _ _ _ _ _ _ _ _ _) = Some ''convolution''"
| "call_variant (AddPooling _ _ _ _ _ _ _ _ _ _ _) = Some ''pooling''"
| "call_variant (AddPadding _ _ _ _ _ _ _ _) = Some ''padding''"
| "call_variant (AddCrop _ _ _ _ _ _ _ _) = Some ''crop''"
| "call_variant (AddVanillaRnn _ _ _ _ _ _ _ _ _ _ _) = Some ''simpleRecurrent''"
| "call_variant (AddGru _ _ _ _ _ _ _ _ _ _ _ _) = Some ''gru''"
| "call_variant (AddUnilstm _ _ _ _ _ _ _ _ _ _ _ _ _ _ _ _ _) = Some ''uniDirectionalLSTM''"
| "call_variant (AddBidirlstm _ _ _ _ _ _ _ _ _ _ _ _ _ _ _ _ _ _ _ _) = Some ''biDirectionalLSTM''"
| "call_variant (AddFlatten _ _ _ _) = Some ''flatten''"
| "call_variant (AddBatchnorm _ _ _ _ _ _ _ _ _ _ _) = Some ''batchnorm''"
| "call_variant (AddPermute _ _ _ _) = Some ''permute''"
| "call_variant (AddReshape _ _ _ _ _) = Some ''reshape''"
| "call_variant (AddDropout _ _ _) = None"

fun is_dropout :: "call \<Rightarrow> bool" where
  "is_dropout (AddDropout _ _ _) = True"
| "is_dropout _ = False"


subsection \<open>Example documents\<close>

text \<open>The document of the end-to-end scenario: one input \<open>("data", (3,))\<close>, one output
  \<open>("probs", (2,))\<close>, no layers yet.\<close>

definition example_builder :: builder where
  "example_builder =
     \<lparr>spec_input = [\<lparr>fname = ''data'', ftype = MultiArrayType [3] DOUBLE\<rparr>],
      spec_output = [\<lparr>fname = ''probs'', ftype = MultiArrayType [2] DOUBLE\<rparr>],
      predictedFeatureName = [], predictedProbabilitiesName = [],
      nn_mode = Classifier, nn_layers = [], nn_classLabels = NoClassLabels\<rparr>"

subsection \<open>Reference notions for the properties\<close>

text \<open>The builder with its first output turned into a dictionary type, every other part as
  it was.\<close>

definition first_output_as_dictionary :: "builder \<Rightarrow> builder" where
  "first_output_as_dictionary bld =
     (case spec_output bld of
        [] \<Rightarrow> bld
      | probOutput # rest \<Rightarrow>
          bld\<lparr>spec_output := probOutput\<lparr>ftype := merge_dictionary (ftype probOutput)\<rparr> # rest\<rparr>)"

text \<open>The shape normalisation as the specification words it: a rank-2 shape keeps only its
  trailing dimension, ranks 1 and 3 pass through; and the ranks it names.\<close>

definition normalize_shape :: "int list \<Rightarrow> int list" where
  "normalize_shape d = (if length d = 2 then [last d] else d)"

definition rank_ok :: "int list \<Rightarrow> bool" where
  "rank_ok d = (length d = 1 \<or> length d = 2 \<or> length d = 3)"

text \<open>The parameters of the layer record added last.\<close>

definition last_layer_params :: "builder \<Rightarrow> layer_params" where
  "last_layer_params bld = lparams (last (nn_layers bld))"

text \<open>A rank-4 nested list that is an array: every axis has one length throughout.\<close>

definition is_array4 :: "'a list list list list \<Rightarrow> bool" where
  "is_array4 W =
     (case shape4 W of (d0, d1, d2, d3) \<Rightarrow>
        list_all (\<lambda>a. length a = d1 \<and>
          list_all (\<lambda>b. length b = d2 \<and> list_all (\<lambda>c. length c = d3) b) a) W)"

text \<open>Rows \<open>[g*h:(g+1)*h]\<close> of a matrix, and the documented gate orders: update, reset, output
  for the GRU; input, forget, output, block input for the LSTM.\<close>

definition gate_rows :: "'a list list \<Rightarrow> nat \<Rightarrow> nat \<Rightarrow> 'a list list" where
  "gate_rows M g h = map (\<lambda>i. M ! i) [g * h ..< (g + 1) * h]"

definition gru_gate_order :: "gru_params \<Rightarrow> real list list \<Rightarrow> real list list \<Rightarrow> nat \<Rightarrow> bool" where
  "gru_gate_order p X H h =
     (gru_updateGateWeightMatrix p = concat (gate_rows X 0 h)
      \<and> gru_resetGateWeightMatrix p = concat (gate_rows X 1 h)
      \<and> gru_outputGateWeightMatrix p = concat (gate_rows X 2 h)
      \<and> gru_updateGateRecursionMatrix p = concat (gate_rows H 0 h)
      \<and> gru_resetGateRecursionMatrix p = concat (gate_rows H 1 h)
      \<and> gru_outputGateRecursionMatrix p = concat (gate_rows H 2 h))"

definition lstm_gate_order ::
  "lstm_weight_params \<Rightarrow> real list list \<Rightarrow> real list list \<Rightarrow> nat \<Rightarrow> bool" where
  "lstm_gate_order w X H h =
     (inputGateWeightMatrix w = concat (gate_rows X 0 h)
      \<and> forgetGateWeightMatrix w = concat (gate_rows X 1 h)
      \<and> outputGateWeightMatrix w = concat (gate_rows X 2 h)
      \<and> blockInputWeightMatrix w = concat (gate_rows X 3 h)
      \<and> inputGateRecursionMatrix w = concat (gate_rows H 0 h)
      \<and> forgetGateRecursionMatrix w = concat (gate_rows H 1 h)
      \<and> outputGateRecursionMatrix w = concat (gate_rows H 2 h)
      \<and> blockInputRecursionMatrix w = concat (gate_rows H 3 h))"

text \<open>A bidirectional LSTM call with hidden size 1 that varies only the two bias arguments,
  and the four bias vectors of the backward weight block of a layer.\<close>

definition backward_bias_call :: "real list option \<Rightarrow> real list option \<Rightarrow> outcome \<times> builder" where
  "backward_bias_call b b_back =
     add_bidirlstm ''lstm'' 1 1 [''data''] [''probs'']
       [[[[1], [2], [3], [4]]]] [[[[5], [6], [7], [8]]]]
       [[[[1], [2], [3], [4]]]] [[[[5], [6], [7], [8]]]]
       ''SIGMOID'' ''TANH'' ''TANH'' b b_back None None False False False 50 example_builder"

fun backward_bias :: "layer_params \<Rightarrow> real list list" where
  "backward_bias (BiDirectionalLSTM p) =
     (let w = bi_weightParams p ! 1
      in [inputGateBiasVector w, forgetGateBiasVector w, outputGateBiasVector w,
          blockInputBiasVector w])"
| "backward_bias _ = []"

text \<open>A dense layer, a dropout and a softmax, called in this order; and the record a call
  leaves at the end of the layer list.\<close>

definition three_calls :: "call list" where
  "three_calls =
     [AddInnerProduct ''ip_layer'' [[1, 2], [3, 4], [5, 6]] [1 / 2, - (1 / 2)] 3 2 True
        ''data'' ''hidden'',
      AddDropout ''drop'' ''hidden'' ''hidden'',
      AddSoftmax ''softmax'' ''hidden'' ''probs'']"

definition appended :: "call \<Rightarrow> builder \<Rightarrow> layer" where
  "appended c bld = last (nn_layers (snd (run c bld)))"


section \<open>Properties\<close>

subsection \<open>add\_dropout\<close>

text \<open>
  Claim C10. \<open>add_dropout\<close> is a complete no-op: for every builder and every combination of
  arguments the call returns, appends no layer record and leaves the whole document as it
  was.
\<close>

theorem add_dropout_noop:
  "add_dropout name input_name output_name bld = (Returned, bld)"
  by (simp add: add_dropout_def)

subsection \<open>add\_convolution with an unsupported border mode\<close>

text \<open>
  Claim C3, as stated, fails: with a border mode other than \<open>valid\<close> and \<open>same\<close> the call
  raises \<open>NotImplementedError\<close>, but the layer record was added to the list at the start of
  the method and stays there.
\<close>

theorem add_convolution_bad_border_counterexample:
  "fst (add_convolution ''conv'' 1 1 1 1 1 1 ''full'' 1 [[[[1]]]] [] False False []
          ''data'' ''probs'' example_builder) = Raised NotImplementedError
   \<and> nn_layers (snd (add_convolution ''conv'' 1 1 1 1 1 1 ''full'' 1 [[[[1]]]] [] False False []
          ''data'' ''probs'' example_builder)) \<noteq> nn_layers example_builder"
  by (simp add: add_convolution_def with_layer_def example_builder_def)

text \<open>
  Claim C3, amended. For every call of \<open>add_convolution\<close> with a border mode other than
  \<open>valid\<close> and \<open>same\<close>, the call raises \<open>NotImplementedError\<close> and the layer list has grown
  by exactly one record: a convolution layer with its name, input, output, deconvolution
  flag, output shape, channel counts, kernel size and stride written, and no padding, group
  count, bias flag, weights or bias.
\<close>

theorem add_convolution_bad_border:
  assumes "borderMode \<noteq> ''valid''" and "borderMode \<noteq> ''same''"
  shows "add_convolution name kernelChannels outputChannels height width stride_height
           stride_width borderMode groups W b has_bias is_deconv output_shape input_name
           output_name bld =
         (Raised NotImplementedError,
          bld\<lparr>nn_layers := nn_layers bld @
            [\<lparr>lname = name, linput = [input_name], loutput = [output_name],
              lparams = Convolution
                \<lparr>conv_isDeconvolution = is_deconv, conv_outputShape = output_shape,
                 conv_outputChannels = outputChannels, conv_kernelChannels = kernelChannels,
                 conv_kernelSize = [height, width], conv_stride = [stride_height, stride_width],
                 conv_padding = PaddingUnset, conv_nGroups = 0, conv_hasBias = False,
                 conv_weights = [], conv_bias = []\<rparr>\<rparr>]\<rparr>)"
  using assms by (simp add: add_convolution_def with_layer_def new_layer_def)

theorem add_convolution_bad_border_witness:
  "''full'' \<noteq> ''valid'' \<and> ''full'' \<noteq> ''same'' \<and>
   length (nn_layers (snd (add_convolution ''conv'' 1 1 1 1 1 1 ''full'' 1 [[[[1]]]] [] False False []
          ''data'' ''probs'' example_builder))) = 1"
  using add_convolution_bad_border [of "''full''" "''conv''" 1 1 1 1 1 1 1 "[[[[1]]]]" "[]" False False "[]"
          "''data''" "''probs''" example_builder]
  by (simp add: example_builder_def)

subsection \<open>add\_elementwise\<close>

text \<open>
  Claim C9, as stated, fails: \<open>add_elementwise\<close> returns and appends a layer for a single
  input name, and for three input names in mode \<open>DOT\<close>.
\<close>

theorem add_elementwise_arity_counterexample:
  "fst (add_elementwise ''sum'' [''data''] ''probs'' ''ADD'' example_builder) = Returned
   \<and> length (nn_layers (snd (add_elementwise ''sum'' [''data''] ''probs'' ''ADD'' example_builder)))
       = Suc (length (nn_layers example_builder))
   \<and> fst (add_elementwise ''dot'' [''a'', ''b'', ''c''] ''probs'' ''DOT'' example_builder) = Returned
   \<and> length (nn_layers (snd (add_elementwise ''dot'' [''a'', ''b'', ''c''] ''probs'' ''DOT'' example_builder)))
       = Suc (length (nn_layers example_builder))"
  by (simp add: add_elementwise_def with_layer_def example_builder_def)

text \<open>
  Claim C9, amended. \<open>add_elementwise\<close> checks no arity: for every list of input names, of
  any length, the call returns when the mode is one of the eight supported ones and raises
  \<open>ValueError\<close> otherwise; in both cases exactly one layer record has been appended, with
  the name, the input names verbatim and the output name, and with the parameter variant of
  the mode (none for an unsupported mode).
\<close>

theorem add_elementwise_no_arity_check:
  "(elementwise_variant mode \<noteq> None \<longrightarrow>
      fst (add_elementwise name input_names output_name mode bld) = Returned)
   \<and> (elementwise_variant mode = None \<longrightarrow>
      fst (add_elementwise name input_names output_name mode bld) = Raised ValueError)
   \<and> (let bld' = snd (add_elementwise name input_names output_name mode bld);
           l = last (nn_layers bld')
       in bld' = with_layer bld l
          \<and> lname l = name \<and> linput l = input_names \<and> loutput l = [output_name]
          \<and> which_layer (lparams l) = elementwise_variant mode)"
  by (simp add: add_elementwise_def elementwise_variant_def new_layer_def with_layer_def)

theorem add_elementwise_no_arity_check_witness:
  "elementwise_variant ''ADD'' \<noteq> None
   \<and> fst (add_elementwise ''sum'' [''data''] ''probs'' ''ADD'' example_builder) = Returned
   \<and> elementwise_variant ''SUB'' = None
   \<and> fst (add_elementwise ''sum'' [''data''] ''probs'' ''SUB'' example_builder) = Raised ValueError"
  using add_elementwise_no_arity_check [of "''ADD''" "''sum''" "[''data'']" "''probs''" example_builder]
        add_elementwise_no_arity_check [of "''SUB''" "''sum''" "[''data'']" "''probs''" example_builder]
  by (simp add: elementwise_variant_def)

subsection \<open>set\_class\_labels\<close>

text \<open>
  Claim C4, as stated, fails: with an empty label list the call returns, but the first
  output, a multi-array before the call, is a dictionary after it.
\<close>

theorem set_class_labels_empty_counterexample:
  "fst (set_class_labels [] ''classLabel'' example_builder) = Returned
   \<and> snd (set_class_labels [] ''classLabel'' example_builder) \<noteq> example_builder
   \<and> map ftype (spec_output (snd (set_class_labels [] ''classLabel'' example_builder)))
       = [DictionaryType NoKeyType]
   \<and> map ftype (spec_output example_builder) = [MultiArrayType [2] DOUBLE]"
  by (simp add: set_class_labels_def example_builder_def)

text \<open>
  Claim C4, amended. For every document with at least one declared output,
  \<open>set_class_labels\<close> with an empty label list returns and changes nothing but the type of
  the first output feature, which becomes a dictionary type (without key type, unless it
  already was a dictionary): no output is appended, no feature name is recorded and no label
  is written.
\<close>

theorem set_class_labels_empty:
  assumes "spec_output bld \<noteq> []"
  shows "set_class_labels [] predicted_feature_name bld = (Returned, first_output_as_dictionary bld)"
  using assms
  by (simp add: set_class_labels_def first_output_as_dictionary_def split: list.splits)

theorem set_class_labels_empty_witness:
  "spec_output example_builder \<noteq> []
   \<and> set_class_labels [] ''classLabel'' example_builder
       = (Returned, example_builder\<lparr>spec_output := [\<lparr>fname = ''probs'', ftype = DictionaryType NoKeyType\<rparr>]\<rparr>)"
  using set_class_labels_empty [of example_builder "''classLabel''"]
  by (simp add: example_builder_def first_output_as_dictionary_def)

text \<open>
  Claim C5, as stated, fails: a label list holding one float makes the call raise
  \<open>TypeError\<close>, but the document is not as it was.
\<close>

theorem set_class_labels_mixed_counterexample:
  "fst (set_class_labels [LFloat (3 / 2)] ''classLabel'' example_builder) = Raised TypeError
   \<and> snd (set_class_labels [LFloat (3 / 2)] ''classLabel'' example_builder) \<noteq> example_builder"
  by (simp add: set_class_labels_def example_builder_def)

lemma append_int64_labels_raises:
  "\<not> list_all is_int cs \<Longrightarrow> fst (append_int64_labels cs bld) = Raised TypeError"
  by (induction cs bld rule: append_int64_labels.induct) simp_all

lemma append_string_labels_raises:
  "\<not> list_all is_str cs \<Longrightarrow> fst (append_string_labels cs bld) = Raised TypeError"
  by (induction cs bld rule: append_string_labels.induct) simp_all

lemma append_int64_labels_outputs:
  "spec_output (snd (append_int64_labels cs bld)) = spec_output bld"
  by (induction cs bld rule: append_int64_labels.induct) simp_all

lemma append_string_labels_outputs:
  "spec_output (snd (append_string_labels cs bld)) = spec_output bld"
  by (induction cs bld rule: append_string_labels.induct) simp_all

lemma merge_dictionary_is_dictionary: "\<exists>k. merge_dictionary t = DictionaryType k"
  by (cases t) simp_all

text \<open>
  Claim C5, amended. For every document with at least one declared output and every non-empty
  label list that is neither all integers nor all strings: if the first label is neither an
  integer nor a string, \<open>set_class_labels\<close> raises \<open>TypeError\<close> and the document differs
  from the one before the call only in the type of the first output, now a dictionary type;
  if the document is a classifier, the call raises \<open>TypeError\<close> whatever the first label is;
  and in every case the first output is of dictionary type after the call.
\<close>

theorem set_class_labels_mixed:
  assumes "spec_output bld \<noteq> []" and "class_labels \<noteq> []"
    and "\<not> list_all is_int class_labels" and "\<not> list_all is_str class_labels"
  shows "(\<not> is_int (hd class_labels) \<and> \<not> is_str (hd class_labels) \<longrightarrow>
            set_class_labels class_labels predicted_feature_name bld
              = (Raised TypeError, first_output_as_dictionary bld))
       \<and> (nn_mode bld = Classifier \<longrightarrow>
            fst (set_class_labels class_labels predicted_feature_name bld) = Raised TypeError)
       \<and> (\<exists>k. ftype (hd (spec_output (snd (set_class_labels class_labels predicted_feature_name bld))))
                 = DictionaryType k)"
proof -
  obtain probOutput rest where out: "spec_output bld = probOutput # rest"
    using assms(1) by (cases "spec_output bld") auto
  obtain c0 cs where cl: "class_labels = c0 # cs"
    using assms(2) by (cases class_labels) auto
  obtain k where k: "merge_dictionary (ftype probOutput) = DictionaryType k"
    using merge_dictionary_is_dictionary by blast
  have a: "\<not> is_int c0 \<and> \<not> is_str c0 \<longrightarrow>
            set_class_labels class_labels predicted_feature_name bld
              = (Raised TypeError, first_output_as_dictionary bld)"
    by (simp add: set_class_labels_def first_output_as_dictionary_def out cl)
  have i: "fst (append_int64_labels (c0 # cs) x) = Raised TypeError" for x
    using assms(3) cl append_int64_labels_raises by blast
  have s: "fst (append_string_labels (c0 # cs) x) = Raised TypeError" for x
    using assms(4) cl append_string_labels_raises by blast
  have b: "nn_mode bld = Classifier \<longrightarrow>
            fst (set_class_labels class_labels predicted_feature_name bld) = Raised TypeError"
    by (simp add: set_class_labels_def out cl Let_def i s)
  have c: "\<exists>k. ftype (hd (spec_output (snd (set_class_labels class_labels predicted_feature_name bld))))
                 = DictionaryType k"
    using k
    by (simp add: set_class_labels_def out cl Let_def append_int64_labels_outputs
          append_string_labels_outputs)
  show ?thesis using a b c cl by simp
qed

theorem set_class_labels_mixed_witness:
  "spec_output example_builder \<noteq> [] \<and> [LInt 1, LStr ''a''] \<noteq> []
   \<and> \<not> list_all is_int [LInt 1, LStr ''a''] \<and> \<not> list_all is_str [LInt 1, LStr ''a'']
   \<and> nn_mode example_builder = Classifier
   \<and> fst (set_class_labels [LInt 1, LStr ''a''] ''classLabel'' example_builder) = Raised TypeError
   \<and> \<not> is_int (hd [LFloat (3 / 2)]) \<and> \<not> is_str (hd [LFloat (3 / 2)])
   \<and> set_class_labels [LFloat (3 / 2)] ''classLabel'' example_builder
        = (Raised TypeError, first_output_as_dictionary example_builder)"
  using set_class_labels_mixed [of example_builder "[LInt 1, LStr ''a'']" "''classLabel''"]
        set_class_labels_mixed [of example_builder "[LFloat (3 / 2)]" "''classLabel''"]
  by (simp add: example_builder_def)

subsection \<open>set\_input and set\_output\<close>

text \<open>
  Claim C6, as stated, fails for \<open>set_output\<close>: a rank-2 shape is written as it is, and a
  rank-4 shape does not make the call fail.
\<close>

theorem set_output_rank_counterexample:
  "fst (set_output [''probs''] [[2, 3]] example_builder) = Returned
   \<and> map ftype (spec_output (snd (set_output [''probs''] [[2, 3]] example_builder)))
       = [MultiArrayType [2, 3] DOUBLE]
   \<and> fst (set_output [''probs''] [[1, 2, 3, 4]] example_builder) = Returned"
  by (simp add: set_output_def example_builder_def write_shape_def)

lemma input_shape_normalized:
  assumes "rank_ok d"
  shows "(if length d = 3 then [d ! 0, d ! 1, d ! 2] else if length d = 2 then [d ! 1] else d)
         = normalize_shape d"
proof (cases "length d = 3")
  case True
  then obtain a b c where "d = [a, b, c]"
    by (cases d; cases "tl d"; cases "tl (tl d)") auto
  then show ?thesis by (simp add: normalize_shape_def)
next
  case False
  show ?thesis
  proof (cases "length d = 2")
    case True
    then obtain a b where "d = [a, b]"
      by (cases d; cases "tl d") auto
    then show ?thesis by (simp add: normalize_shape_def)
  next
    case False
    then show ?thesis using \<open>length d \<noteq> 3\<close> by (simp add: normalize_shape_def)
  qed
qed

lemma set_input_loop_ok:
  "list_all rank_ok dims \<Longrightarrow> idx + length dims \<le> length (spec_input bld) \<Longrightarrow>
   fst (set_input_loop idx dims bld) = Returned
   \<and> length (spec_input (snd (set_input_loop idx dims bld))) = length (spec_input bld)
   \<and> (\<forall>i < length (spec_input bld).
         spec_input (snd (set_input_loop idx dims bld)) ! i =
           (if idx \<le> i \<and> i < idx + length dims
            then write_shape (spec_input bld ! i) (normalize_shape (dims ! (i - idx)))
            else spec_input bld ! i))"
proof (induction dims arbitrary: idx bld)
  case Nil
  then show ?case by auto
next
  case (Cons d dims)
  let ?b = "bld\<lparr>spec_input := (spec_input bld)[idx := write_shape (spec_input bld ! idx) (normalize_shape d)]\<rparr>"
  have r: "rank_ok d" and rs: "list_all rank_ok dims" using Cons.prems(1) by simp_all
  have lt: "idx < length (spec_input bld)" using Cons.prems(2) by simp
  have step: "set_input_loop idx (d # dims) bld = set_input_loop (Suc idx) dims ?b"
    using r lt input_shape_normalized [OF r] by (auto simp: rank_ok_def Let_def)
  have len: "Suc idx + length dims \<le> length (spec_input ?b)" using Cons.prems(2) by simp
  note ih = Cons.IH [OF rs len]
  show ?case
    unfolding step using ih lt
    by (auto simp: nth_list_update nth_Cons' Suc_diff_le)
qed

lemma set_input_loop_bad:
  "\<not> list_all rank_ok dims \<Longrightarrow> fst (set_input_loop idx dims bld) \<noteq> Returned"
  by (induction idx dims bld rule: set_input_loop.induct) (auto simp: rank_ok_def Let_def)

lemma set_output_loop_ok:
  "idx + length dims \<le> length (spec_output bld) \<Longrightarrow>
   fst (set_output_loop idx dims bld) = Returned
   \<and> length (spec_output (snd (set_output_loop idx dims bld))) = length (spec_output bld)
   \<and> (\<forall>i < length (spec_output bld).
         spec_output (snd (set_output_loop idx dims bld)) ! i =
           (if idx \<le> i \<and> i < idx + length dims
            then write_shape (spec_output bld ! i) (dims ! (i - idx))
            else spec_output bld ! i))"
proof (induction dims arbitrary: idx bld)
  case Nil
  then show ?case by auto
next
  case (Cons d dims)
  let ?b = "bld\<lparr>spec_output := (spec_output bld)[idx := write_shape (spec_output bld ! idx) d]\<rparr>"
  have lt: "idx < length (spec_output bld)" using Cons.prems by simp
  have step: "set_output_loop idx (d # dims) bld = set_output_loop (Suc idx) dims ?b"
    using lt by simp
  have len: "Suc idx + length dims \<le> length (spec_output ?b)" using Cons.prems by simp
  note ih = Cons.IH [OF len]
  show ?case
    unfolding step using ih lt
    by (auto simp: nth_list_update nth_Cons' Suc_diff_le)
qed

text \<open>
  Claim C6, amended. For every list of shapes no longer than the list of declared inputs,
  \<open>set_input\<close> writes each rank-2 shape as the rank-1 shape of its trailing dimension and
  each rank-1 and rank-3 shape unchanged, and a shape of any other rank makes the call fail.
  \<open>set_output\<close> normalises nothing and rejects no rank: for every list of shapes no longer
  than the list of declared outputs it returns and writes each shape through unchanged.
\<close>

theorem set_input_output_shapes:
  "(list_all rank_ok dims \<and> length dims \<le> length (spec_input bld) \<longrightarrow>
      fst (set_input names dims bld) = Returned
      \<and> (\<forall>i < length dims.
            spec_input (snd (set_input names dims bld)) ! i
              = write_shape (spec_input bld ! i) (normalize_shape (dims ! i))))
   \<and> (\<not> list_all rank_ok dims \<longrightarrow> fst (set_input names dims bld) \<noteq> Returned)
   \<and> (length dims \<le> length (spec_output bld) \<longrightarrow>
      fst (set_output names dims bld) = Returned
      \<and> (\<forall>i < length dims.
            spec_output (snd (set_output names dims bld)) ! i
              = write_shape (spec_output bld ! i) (dims ! i)))"
  using set_input_loop_ok [of dims 0 bld] set_input_loop_bad [of dims 0 bld]
        set_output_loop_ok [of 0 dims bld]
  by (simp add: set_input_def set_output_def)

theorem set_input_output_shapes_witness:
  "list_all rank_ok [[4, 3]] \<and> length [[4, 3 :: int]] \<le> length (spec_input example_builder)
   \<and> fst (set_input [''data''] [[4, 3]] example_builder) = Returned
   \<and> spec_input (snd (set_input [''data''] [[4, 3]] example_builder)) ! 0
       = \<lparr>fname = ''data'', ftype = MultiArrayType [3] DOUBLE\<rparr>
   \<and> \<not> list_all rank_ok [[1, 2, 3, 4]]
   \<and> fst (set_input [''data''] [[1, 2, 3, 4]] example_builder) \<noteq> Returned
   \<and> length [[4, 3 :: int]] \<le> length (spec_output example_builder)
   \<and> spec_output (snd (set_output [''probs''] [[4, 3]] example_builder)) ! 0
       = \<lparr>fname = ''probs'', ftype = MultiArrayType [4, 3] DOUBLE\<rparr>"
  using set_input_output_shapes [of "[[4, 3]]" example_builder "[''data'']"]
        set_input_output_shapes [of "[[1, 2, 3, 4]]" example_builder "[''data'']"]
        set_input_output_shapes [of "[[4, 3]]" example_builder "[''probs'']"]
  by (simp add: example_builder_def rank_ok_def normalize_shape_def write_shape_def)

subsection \<open>Weight layout of add\_convolution\<close>

lemma concat_uniform_length:
  "\<forall>x \<in> set xss. length x = m \<Longrightarrow> length (concat xss) = length xss * m"
  by (induction xss) simp_all

lemma concat_uniform_nth:
  "\<forall>x \<in> set xss. length x = m \<Longrightarrow> i < length xss \<Longrightarrow> j < m \<Longrightarrow>
   concat xss ! (i * m + j) = xss ! i ! j"
proof (induction xss arbitrary: i)
  case Nil
  then show ?case by simp
next
  case (Cons x xss)
  show ?case
  proof (cases i)
    case 0
    then show ?thesis using Cons.prems by (simp add: nth_append)
  next
    case (Suc k)
    have "concat (x # xss) ! (i * m + j) = concat xss ! (k * m + j)"
      using Suc Cons.prems by (simp add: nth_append)
    then show ?thesis using Suc Cons by simp
  qed
qed

lemma index_bound:
  fixes i j n m :: nat
  assumes "i < n" and "j < m"
  shows "i * m + j < n * m"
proof -
  have "i * m + j < i * m + m" using assms(2) by simp
  also have "\<dots> = Suc i * m" by simp
  also have "\<dots> \<le> n * m" using assms(1) by (intro mult_le_mono1) simp
  finally show ?thesis .
qed

text \<open>A rank-4 array given by its element function, flattened.\<close>

lemma flatten4_tabulate:
  fixes e :: "nat \<Rightarrow> nat \<Rightarrow> nat \<Rightarrow> nat \<Rightarrow> 'a"
  defines "T n0 n1 n2 n3 \<equiv>
    map (\<lambda>a. map (\<lambda>b. map (\<lambda>c. map (\<lambda>d. e a b c d) [0..<n3]) [0..<n2]) [0..<n1]) [0..<n0]"
  shows "length (flatten4 (T n0 n1 n2 n3)) = n0 * n1 * n2 * n3"
    and "a < n0 \<Longrightarrow> b < n1 \<Longrightarrow> c < n2 \<Longrightarrow> d < n3 \<Longrightarrow>
         flatten4 (T n0 n1 n2 n3) ! (((a * n1 + b) * n2 + c) * n3 + d) = e a b c d"
proof -
  let ?T = "T n0 n1 n2 n3"
  have u1: "\<forall>x \<in> set ?T. length x = n1" by (auto simp: T_def)
  have l1: "length (concat ?T) = n0 * n1"
    using concat_uniform_length [OF u1] by (simp add: T_def)
  have u2: "\<forall>x \<in> set (concat ?T). length x = n2" by (auto simp: T_def)
  have l2: "length (concat (concat ?T)) = n0 * n1 * n2"
    using concat_uniform_length [OF u2] l1 by simp
  have u3: "\<forall>x \<in> set (concat (concat ?T)). length x = n3" by (auto simp: T_def)
  show "length (flatten4 ?T) = n0 * n1 * n2 * n3"
    using concat_uniform_length [OF u3] l2 by (simp add: flatten4_def)
  show "flatten4 ?T ! (((a * n1 + b) * n2 + c) * n3 + d) = e a b c d"
    if a: "a < n0" and b: "b < n1" and c: "c < n2" and d: "d < n3"
  proof -
    have ab: "a * n1 + b < length (concat ?T)" using index_bound [OF a b] l1 by simp
    have abc: "(a * n1 + b) * n2 + c < length (concat (concat ?T))"
      using index_bound [OF _ c, of "a * n1 + b" "n0 * n1"] index_bound [OF a b] l2 by simp
    have "flatten4 ?T ! (((a * n1 + b) * n2 + c) * n3 + d)
          = concat (concat ?T) ! ((a * n1 + b) * n2 + c) ! d"
      unfolding flatten4_def by (rule concat_uniform_nth [OF u3 abc d])
    also have "concat (concat ?T) ! ((a * n1 + b) * n2 + c) = concat ?T ! (a * n1 + b) ! c"
      by (rule concat_uniform_nth [OF u2 ab c])
    also have "concat ?T ! (a * n1 + b) = ?T ! a ! b"
      using a by (intro concat_uniform_nth [OF u1 _ b]) (simp add: T_def)
    finally show ?thesis using a b c d by (simp add: T_def)
  qed
qed

lemma flatten_transpose_3201:
  assumes "shape4 W = (H, Wd, Cin, Cout)"
  shows "length (flatten4 (transpose_3201 W)) = Cout * Cin * H * Wd"
    and "f < Cout \<Longrightarrow> c < Cin \<Longrightarrow> h < H \<Longrightarrow> w < Wd \<Longrightarrow>
         flatten4 (transpose_3201 W) ! (((f * Cin + c) * H + h) * Wd + w) = W ! h ! w ! c ! f"
  using flatten4_tabulate [where e = "\<lambda>i3 i2 i0 i1. W ! i0 ! i1 ! i2 ! i3"
          and ?n0.0 = Cout and ?n1.0 = Cin and ?n2.0 = H and ?n3.0 = Wd]
  by (simp_all add: transpose_3201_def assms)

lemma flatten_transpose_2301:
  assumes "shape4 W = (H, Wd, Cin, Cout)"
  shows "length (flatten4 (transpose_2301 W)) = Cout * Cin * H * Wd"
    and "f < Cout \<Longrightarrow> c < Cin \<Longrightarrow> h < H \<Longrightarrow> w < Wd \<Longrightarrow>
         flatten4 (transpose_2301 W) ! (((c * Cout + f) * H + h) * Wd + w) = W ! h ! w ! c ! f"
proof -
  note t = flatten4_tabulate [where e = "\<lambda>i2 i3 i0 i1. W ! i0 ! i1 ! i2 ! i3"
             and ?n0.0 = Cin and ?n1.0 = Cout and ?n2.0 = H and ?n3.0 = Wd]
  show "length (flatten4 (transpose_2301 W)) = Cout * Cin * H * Wd"
    using t(1) by (simp add: transpose_2301_def assms mult.commute)
  show "flatten4 (transpose_2301 W) ! (((c * Cout + f) * H + h) * Wd + w) = W ! h ! w ! c ! f"
    if "f < Cout" "c < Cin" "h < H" "w < Wd"
    using t(2) [of c f h w] that by (simp add: transpose_2301_def assms)
qed

text \<open>
  Claim C1. For every weight array \<open>W\<close> of shape \<open>(H, W, Cin, Cout)\<close>, \<open>add_convolution\<close>
  called with these dimensions and a supported border mode stores as the layer's weights the
  flattened sequence of \<open>W\<close> transposed to \<open>(Cout, Cin, H, W)\<close> when \<open>is_deconv\<close> is false and
  to \<open>(Cin, Cout, H, W)\<close> when it is true: the stored sequence has \<open>Cout * Cin * H * W\<close>
  elements, and the element at the row-major position of \<open>(f, c, h, w)\<close>, respectively
  \<open>(c, f, h, w)\<close>, is \<open>W[h, w, c, f]\<close>. The call returns unless a requested bias is shorter
  than \<open>Cout\<close>.
\<close>

theorem convolution_weight_layout:
  assumes "is_array4 W" and "shape4 W = (H, Wd, Cin, Cout)"
    and "borderMode = ''valid'' \<or> borderMode = ''same''"
  shows "((has_bias \<longrightarrow> Cout \<le> length b) \<longrightarrow>
            fst (add_convolution name Cin Cout H Wd stride_height stride_width borderMode
                   groups W b has_bias is_deconv output_shape input_name output_name bld)
              = Returned)
       \<and> (\<exists>p. last_layer_params (snd (add_convolution name Cin Cout H Wd stride_height
                stride_width borderMode groups W b has_bias is_deconv output_shape input_name
                output_name bld)) = Convolution p
           \<and> length (conv_weights p) = Cout * Cin * H * Wd
           \<and> (\<forall>f < Cout. \<forall>c < Cin. \<forall>h < H. \<forall>w < Wd.
                 conv_weights p !
                   (if is_deconv then ((c * Cout + f) * H + h) * Wd + w
                    else ((f * Cin + c) * H + h) * Wd + w) = W ! h ! w ! c ! f))"
    (is "?R \<and> (\<exists>p. ?L p \<and> ?N p \<and> ?I p)")
proof -
  let ?Wt = "if \<not> is_deconv then flatten4 (transpose_3201 W) else flatten4 (transpose_2301 W)"
  have len: "length ?Wt = Cout * Cin * H * Wd"
    using flatten_transpose_3201(1) [OF assms(2)] flatten_transpose_2301(1) [OF assms(2)]
    by simp
  have cp: "copy_range (Cout * Cin * H * Wd) ?Wt = (Returned, ?Wt)"
    using len by (simp add: copy_range_def)
  have nth: "\<forall>f < Cout. \<forall>c < Cin. \<forall>h < H. \<forall>w < Wd.
               ?Wt ! (if is_deconv then ((c * Cout + f) * H + h) * Wd + w
                      else ((f * Cin + c) * H + h) * Wd + w) = W ! h ! w ! c ! f"
    using flatten_transpose_3201(2) [OF assms(2)] flatten_transpose_2301(2) [OF assms(2)]
    by simp
  obtain r bs where bias: "copy_range Cout b = (r, bs)" by (cases "copy_range Cout b") auto
  have ret: "Cout \<le> length b \<Longrightarrow> r = Returned"
    using bias by (simp add: copy_range_def)
  have R: ?R
    using assms(3) cp ret
    by (cases has_bias) (auto simp add: add_convolution_def Let_def bias)
  have "\<exists>p. ?L p \<and> conv_weights p = ?Wt"
    using assms(3) cp
    by (cases has_bias)
       (auto simp add: add_convolution_def Let_def bias with_layer_def new_layer_def
          last_layer_params_def)
  then obtain p where p: "?L p" and w: "conv_weights p = ?Wt" by blast
  have "?N p" unfolding w by (rule len)
  moreover have "?I p" unfolding w by (rule nth)
  ultimately show ?thesis using p R by blast
qed

theorem convolution_weight_layout_witness:
  "is_array4 [[[[1, 2], [3, 4], [5, 6 :: real]]]]
   \<and> shape4 [[[[1, 2], [3, 4], [5, 6 :: real]]]] = (1, 1, 3, 2)
   \<and> fst (add_convolution ''conv'' 3 2 1 1 1 1 ''valid'' 1
            [[[[1, 2], [3, 4], [5, 6]]]] [] False False [] ''data'' ''probs'' example_builder)
       = Returned
   \<and> (\<exists>p. last_layer_params (snd (add_convolution ''conv'' 3 2 1 1 1 1 ''valid'' 1
                [[[[1, 2], [3, 4], [5, 6]]]] [] False False [] ''data'' ''probs''
                example_builder)) = Convolution p
           \<and> length (conv_weights p) = 2 * 3 * 1 * 1
           \<and> (\<forall>f < 2. \<forall>c < 3. \<forall>h < 1. \<forall>w < 1.
                 conv_weights p !
                   (if False then ((c * 2 + f) * 1 + h) * 1 + w
                    else ((f * 3 + c) * 1 + h) * 1 + w)
                 = [[[[1, 2], [3, 4], [5, 6]]]] ! h ! w ! c ! f))"
  using convolution_weight_layout [of "[[[[1, 2], [3, 4], [5, 6]]]]" 1 1 3 2 "''valid''"
          False "[]" "''conv''" 1 1 1 False  "[]" "''data''" "''probs''" example_builder]
  by (simp add: is_array4_def shape4_def)

subsection \<open>Gate slices of the recurrent layers\<close>

lemma py_slice_rows:
  assumes "hi \<le> length M"
  shows "py_slice M lo hi = map (\<lambda>i. M ! i) [lo..<hi]"
proof -
  have "take hi M = take hi (map (\<lambda>i. M ! i) [0..<length M])"
    by (simp add: map_nth)
  also have "\<dots> = map (\<lambda>i. M ! i) [0..<hi]"
    using assms by (simp add: take_map)
  finally show ?thesis by (simp add: py_slice_def drop_map)
qed

lemma gate_block:
  assumes "length M = n * h" and "g < n" and "lo = g * h" and "hi = g * h + h"
  shows "py_slice M lo hi = gate_rows M g h"
proof -
  have "(g + 1) * h \<le> n * h" using assms(2) by (intro mult_le_mono1) simp
  then show ?thesis using assms by (simp add: py_slice_rows gate_rows_def add.commute)
qed

lemma gru_gate_blocks:
  assumes "fst (set_recurrent_activations [inner_activation, activation]) = Returned"
    and "index00 W_x = Inr X" and "index00 W_h = Inr H"
    and "length X = 3 * h" and "length H = 3 * h"
  shows "fst (add_gru name W_h W_x b activation inner_activation h input_size input_names
                output_names output_all reverse_input bld) = Returned
       \<and> (\<exists>p. last_layer_params (snd (add_gru name W_h W_x b activation inner_activation h
                  input_size input_names output_names output_all reverse_input bld)) = GRU p
            \<and> gru_gate_order p X H h)"
proof -
  obtain fs where fs: "set_recurrent_activations [inner_activation, activation] = (Returned, fs)"
    using assms(1) by (cases "set_recurrent_activations [inner_activation, activation]") auto
  have x: "py_slice X 0 h = gate_rows X 0 h" "py_slice X h (2 * h) = gate_rows X 1 h"
          "py_slice X (2 * h) (3 * h) = gate_rows X 2 h"
    by (rule gate_block [OF assms(4)]; simp)+
  have y: "py_slice H 0 h = gate_rows H 0 h" "py_slice H h (2 * h) = gate_rows H 1 h"
          "py_slice H (2 * h) (3 * h) = gate_rows H 2 h"
    by (rule gate_block [OF assms(5)]; simp)+
  show ?thesis
    by (simp add: add_gru_def fs assms(2,3) x y Let_def with_layer_def new_layer_def
          last_layer_params_def gru_gate_order_def del: set_recurrent_activations.simps)
qed

lemma lstm_weights_blocks:
  assumes "index00 W_x = Inr X" and "index00 W_h = Inr H"
    and "length X = 4 * h" and "length H = 4 * h"
  shows "lstm_gate_order (snd (write_lstm_weights W_h W_x guard bias peep h)) X H h"
    and "(guard \<longrightarrow> bias \<noteq> None) \<Longrightarrow> fst (write_lstm_weights W_h W_x guard bias peep h) = Returned"
proof -
  have x: "py_slice X 0 h = gate_rows X 0 h" "py_slice X h (2 * h) = gate_rows X 1 h"
          "py_slice X (2 * h) (3 * h) = gate_rows X 2 h"
          "py_slice X (3 * h) (4 * h) = gate_rows X 3 h"
    by (rule gate_block [OF assms(3)]; simp)+
  have y: "py_slice H 0 h = gate_rows H 0 h" "py_slice H h (2 * h) = gate_rows H 1 h"
          "py_slice H (2 * h) (3 * h) = gate_rows H 2 h"
          "py_slice H (3 * h) (4 * h) = gate_rows H 3 h"
    by (rule gate_block [OF assms(4)]; simp)+
  show "lstm_gate_order (snd (write_lstm_weights W_h W_x guard bias peep h)) X H h"
    by (cases bias)
       (simp_all add: write_lstm_weights_def assms(1,2) x y Let_def lstm_gate_order_def
          empty_lstm_weights_def)
  show "fst (write_lstm_weights W_h W_x guard bias peep h) = Returned"
    if "guard \<longrightarrow> bias \<noteq> None"
    using that
    by (cases bias) (simp_all add: write_lstm_weights_def assms(1,2) Let_def)
qed

lemma not_none_and_any_Some: "not_none_and_any b \<Longrightarrow> b \<noteq> None"
  by (cases b) simp_all

lemma unilstm_gate_blocks:
  assumes "fst (set_recurrent_activations
                  [inner_activation, cell_state_update_activation, output_activation]) = Returned"
    and "index00 W_x = Inr X" and "index00 W_h = Inr H"
    and "length X = 4 * h" and "length H = 4 * h"
  shows "fst (add_unilstm name h input_size input_names output_names W_h W_x inner_activation
                cell_state_update_activation output_activation b peep output_all forget_bias
                coupled_input_forget_gate cell_clip_threshold reverse_input bld) = Returned
       \<and> (\<exists>p. last_layer_params (snd (add_unilstm name h input_size input_names output_names
                  W_h W_x inner_activation cell_state_update_activation output_activation b peep
                  output_all forget_bias coupled_input_forget_gate cell_clip_threshold
                  reverse_input bld)) = UniDirectionalLSTM p
            \<and> lstm_gate_order (uni_weightParams p) X H h)"
proof -
  let ?acts = "[inner_activation, cell_state_update_activation, output_activation]"
  obtain fs where fs: "set_recurrent_activations ?acts = (Returned, fs)"
    using assms(1) by (cases "set_recurrent_activations ?acts") auto
  let ?w = "write_lstm_weights W_h W_x (not_none_and_any b) b peep h"
  have r: "fst ?w = Returned"
    using lstm_weights_blocks(2) [OF assms(2-5)] not_none_and_any_Some by blast
  have g: "lstm_gate_order (snd ?w) X H h"
    by (rule lstm_weights_blocks(1) [OF assms(2-5)])
  show ?thesis
    using r g
    by (simp add: add_unilstm_def fs Let_def with_layer_def new_layer_def last_layer_params_def
          split_beta del: set_recurrent_activations.simps)
qed

lemma bidirlstm_gate_blocks:
  assumes "fst (set_recurrent_activations
                  [inner_activation, cell_state_update_activation, output_activation]) = Returned"
    and "index00 W_x = Inr X" and "index00 W_h = Inr H"
    and "length X = 4 * h" and "length H = 4 * h"
    and "index00 W_x_back = Inr X_back" and "index00 W_h_back = Inr H_back"
    and "length X_back = 4 * h" and "length H_back = 4 * h"
  shows "((not_none_and_any b \<longrightarrow> b_back \<noteq> None) \<longrightarrow>
            fst (add_bidirlstm name h input_size input_names output_names W_h W_x W_h_back
                   W_x_back inner_activation cell_state_update_activation output_activation b
                   b_back peep peep_back output_all forget_bias coupled_input_forget_gate
                   cell_clip_threshold bld) = Returned)
       \<and> (\<exists>p w w_back. last_layer_params (snd (add_bidirlstm name h input_size input_names
                  output_names W_h W_x W_h_back W_x_back inner_activation
                  cell_state_update_activation output_activation b b_back peep peep_back
                  output_all forget_bias coupled_input_forget_gate cell_clip_threshold bld))
                = BiDirectionalLSTM p
            \<and> bi_weightParams p = [w, w_back]
            \<and> lstm_gate_order w X H h \<and> lstm_gate_order w_back X_back H_back h)"
proof -
  let ?acts = "[inner_activation, cell_state_update_activation, output_activation]"
  obtain fs where fs: "set_recurrent_activations ?acts = (Returned, fs)"
    using assms(1) by (cases "set_recurrent_activations ?acts") auto
  let ?w = "write_lstm_weights W_h W_x (not_none_and_any b) b peep h"
  let ?v = "write_lstm_weights W_h_back W_x_back (not_none_and_any b) b_back peep_back h"
  have r: "fst ?w = Returned"
    using lstm_weights_blocks(2) [OF assms(2-5)] not_none_and_any_Some by blast
  then obtain w where w: "?w = (Returned, w)" by (cases ?w) auto
  have g: "lstm_gate_order w X H h"
    using lstm_weights_blocks(1) [OF assms(2-5), of "not_none_and_any b" b peep] w by simp
  have rb: "(not_none_and_any b \<longrightarrow> b_back \<noteq> None) \<longrightarrow> fst ?v = Returned"
    using lstm_weights_blocks(2) [OF assms(6-9)] by blast
  have gb: "lstm_gate_order (snd ?v) X_back H_back h"
    by (rule lstm_weights_blocks(1) [OF assms(6-9)])
  show ?thesis
    using g rb gb
    by (simp add: add_bidirlstm_def fs w Let_def with_layer_def new_layer_def
          last_layer_params_def split_beta del: set_recurrent_activations.simps)
qed

text \<open>
  Claim C2. For every hidden size \<open>h\<close> and every combined weight array whose gate-stacked
  axis has length \<open>3h\<close> (\<open>add_gru\<close>) or \<open>4h\<close> (\<open>add_unilstm\<close>, \<open>add_bidirlstm\<close>), the block
  written for the gate with index \<open>g\<close> is rows \<open>[g*h:(g+1)*h]\<close> of the source matrix,
  flattened, in the order update, reset, output for the GRU and input, forget, output, block
  input for the LSTM weights, forward and backward. With supported activation names
  \<open>add_gru\<close> and \<open>add_unilstm\<close> return, and \<open>add_bidirlstm\<close> returns unless the backward
  bias is missing while the forward bias is non-zero.
\<close>

theorem gate_slicing:
  assumes "fst (set_recurrent_activations [inner_activation, activation]) = Returned"
    and "fst (set_recurrent_activations
               [inner_activation, cell_state_update_activation, output_activation]) = Returned"
    and "index00 G_x = Inr GX" and "index00 G_h = Inr GH"
    and "length GX = 3 * h" and "length GH = 3 * h"
    and "index00 W_x = Inr X" and "index00 W_h = Inr H"
    and "length X = 4 * h" and "length H = 4 * h"
    and "index00 W_x_back = Inr X_back" and "index00 W_h_back = Inr H_back"
    and "length X_back = 4 * h" and "length H_back = 4 * h"
  shows "(fst (add_gru name G_h G_x b activation inner_activation h input_size input_names
                output_names output_all reverse_input bld) = Returned
          \<and> (\<exists>p. last_layer_params (snd (add_gru name G_h G_x b activation inner_activation h
                  input_size input_names output_names output_all reverse_input bld)) = GRU p
                \<and> gru_gate_order p GX GH h))
       \<and> (fst (add_unilstm name h input_size input_names output_names W_h W_x inner_activation
                cell_state_update_activation output_activation b peep output_all forget_bias
                coupled_input_forget_gate cell_clip_threshold reverse_input bld) = Returned
          \<and> (\<exists>p. last_layer_params (snd (add_unilstm name h input_size input_names output_names
                  W_h W_x inner_activation cell_state_update_activation output_activation b peep
                  output_all forget_bias coupled_input_forget_gate cell_clip_threshold
                  reverse_input bld)) = UniDirectionalLSTM p
                \<and> lstm_gate_order (uni_weightParams p) X H h))
       \<and> (((not_none_and_any b \<longrightarrow> b_back \<noteq> None) \<longrightarrow>
            fst (add_bidirlstm name h input_size input_names output_names W_h W_x W_h_back
                   W_x_back inner_activation cell_state_update_activation output_activation b
                   b_back peep peep_back output_all forget_bias coupled_input_forget_gate
                   cell_clip_threshold bld) = Returned)
          \<and> (\<exists>p w w_back. last_layer_params (snd (add_bidirlstm name h input_size input_names
                  output_names W_h W_x W_h_back W_x_back inner_activation
                  cell_state_update_activation output_activation b b_back peep peep_back
                  output_all forget_bias coupled_input_forget_gate cell_clip_threshold bld))
                = BiDirectionalLSTM p
                \<and> bi_weightParams p = [w, w_back]
                \<and> lstm_gate_order w X H h \<and> lstm_gate_order w_back X_back H_back h))"
  by (intro conjI gru_gate_blocks [OF assms(1,3-6), THEN conjunct1]
        gru_gate_blocks [OF assms(1,3-6), THEN conjunct2]
        unilstm_gate_blocks [OF assms(2,7-10), THEN conjunct1]
        unilstm_gate_blocks [OF assms(2,7-10), THEN conjunct2]
        bidirlstm_gate_blocks [OF assms(2,7-14), THEN conjunct1]
        bidirlstm_gate_blocks [OF assms(2,7-14), THEN conjunct2])

theorem gate_slicing_witness:
  "fst (set_recurrent_activations [''SIGMOID'', ''TANH'']) = Returned
   \<and> fst (set_recurrent_activations [''SIGMOID'', ''TANH'', ''TANH'']) = Returned
   \<and> index00 [[[[1], [2], [3 :: real]]]] = Inr [[1], [2], [3]]
   \<and> length [[1], [2], [3 :: real]] = 3 * 1
   \<and> index00 [[[[1], [2], [3], [4 :: real]]]] = Inr [[1], [2], [3], [4]]
   \<and> length [[1], [2], [3], [4 :: real]] = 4 * 1
   \<and> fst (add_gru ''gru'' [[[[1], [2], [3]]]] [[[[1], [2], [3]]]] None
               ''TANH'' ''SIGMOID'' 1 1 [''data''] [''probs''] False False example_builder)
       = Returned
   \<and> (\<exists>p. last_layer_params (snd (add_gru ''gru'' [[[[1], [2], [3]]]] [[[[1], [2], [3]]]] None
               ''TANH'' ''SIGMOID'' 1 1 [''data''] [''probs''] False False example_builder)) = GRU p
          \<and> gru_gate_order p [[1], [2], [3]] [[1], [2], [3]] 1)
   \<and> (\<exists>p. last_layer_params (snd (add_unilstm ''gru'' 1 1 [''data''] [''probs'']
               [[[[1], [2], [3], [4]]]] [[[[1], [2], [3], [4]]]] ''SIGMOID'' ''TANH'' ''TANH''
               None None False False False 50 False example_builder)) = UniDirectionalLSTM p
          \<and> lstm_gate_order (uni_weightParams p) [[1], [2], [3], [4]] [[1], [2], [3], [4]] 1)
   \<and> concat (gate_rows [[1], [2], [3 :: real]] 1 1) = [2]"
  using gate_slicing [where inner_activation = "''SIGMOID''" and activation = "''TANH''"
          and cell_state_update_activation = "''TANH''" and output_activation = "''TANH''"
          and G_x = "[[[[1], [2], [3]]]]" and GX = "[[1], [2], [3]]"
          and G_h = "[[[[1], [2], [3]]]]" and GH = "[[1], [2], [3]]" and h = 1
          and W_x = "[[[[1], [2], [3], [4]]]]" and X = "[[1], [2], [3], [4]]"
          and W_h = "[[[[1], [2], [3], [4]]]]" and H = "[[1], [2], [3], [4]]"
          and W_x_back = "[[[[1], [2], [3], [4]]]]" and X_back = "[[1], [2], [3], [4]]"
          and W_h_back = "[[[[1], [2], [3], [4]]]]" and H_back = "[[1], [2], [3], [4]]"
          and name = "''gru''" and b = None and input_size = 1 and input_names = "[''data'']"
          and output_names = "[''probs'']" and output_all = False and reverse_input = False
          and bld = example_builder and peep = None and forget_bias = False
          and coupled_input_forget_gate = False and cell_clip_threshold = 50]
  by (simp add: set_recurrent_activation_def gate_rows_def)

subsection \<open>Bias vectors of add\_bidirlstm\<close>

text \<open>
  Claim C7 fails for the backward bias of \<open>add_bidirlstm\<close>, whose four lines are guarded by
  the forward bias \<open>b\<close> instead of \<open>b_back\<close>: a non-zero backward bias is left out when the
  forward bias is absent, an all-zero backward bias is written when the forward bias is
  non-zero, and an absent backward bias makes the call raise \<open>TypeError\<close> when the forward
  bias is non-zero.
\<close>

theorem bidirlstm_backward_bias_dropped:
  "fst (backward_bias_call None (Some [1, 2, 3, 4])) = Returned
   \<and> backward_bias (last_layer_params (snd (backward_bias_call None (Some [1, 2, 3, 4]))))
       = [[], [], [], []]
   \<and> fst (backward_bias_call (Some [1, 2, 3, 4]) (Some [0, 0, 0, 0])) = Returned
   \<and> backward_bias (last_layer_params (snd (backward_bias_call (Some [1, 2, 3, 4]) (Some [0, 0, 0, 0]))))
       = [[0], [0], [0], [0]]
   \<and> fst (backward_bias_call (Some [1, 2, 3, 4]) None) = Raised TypeError"
  by (simp add: backward_bias_call_def add_bidirlstm_def write_lstm_weights_def py_slice_def
      with_layer_def new_layer_def example_builder_def set_recurrent_activation_def
      empty_lstm_weights_def last_layer_params_def)

subsection \<open>Sequences of calls\<close>

text \<open>
  Claim C8, as stated, fails: three calls that all return, one of them \<open>add_dropout\<close>, leave
  two layers.
\<close>

theorem dropout_sequence_counterexample:
  "fst (run_all three_calls example_builder) = Returned
   \<and> length three_calls = 3
   \<and> length (nn_layers (snd (run_all three_calls example_builder))) = 2"
  by (simp add: three_calls_def example_builder_def add_inner_product_def add_dropout_def
        add_softmax_def with_layer_def)

lemma run_dropout: "is_dropout c \<Longrightarrow> run c bld = (Returned, bld)"
  by (cases c) (simp_all add: add_dropout_def)

lemma run_layer:
  "\<not> is_dropout c \<Longrightarrow>
   snd (run c bld) = with_layer bld (appended c bld)
   \<and> lname (appended c bld) = call_name c
   \<and> (fst (run c bld) = Returned \<longrightarrow>
        which_layer (lparams (appended c bld)) = call_variant c \<and> call_variant c \<noteq> None)"
proof (cases c)
  case (AddActivation name non_linearity input_name output_name params)
  then show ?thesis
    by (simp add: appended_def add_activation_def with_layer_def new_layer_def Let_def
          split: sum.splits prod.splits)
next
  case (AddElementwise name input_names output_name mode)
  then show ?thesis
    by (simp add: appended_def add_elementwise_def elementwise_variant_def with_layer_def
          new_layer_def)
next
  case (AddConvolution name kernelChannels outputChannels height width stride_height
      stride_width borderMode groups W b has_bias is_deconv output_shape input_name output_name)
  then show ?thesis
    by (simp add: appended_def add_convolution_def with_layer_def new_layer_def Let_def
          split: prod.splits outcome.splits)
next
  case (AddPooling name height width stride_height stride_width layer_type padding_type
      exclude_pad_area is_global input_name output_name)
  then show ?thesis
    by (simp add: appended_def add_pooling_def with_layer_def new_layer_def Let_def
          split: sum.splits)
next
  case (AddVanillaRnn name W_h W_x b activation hidden_size input_size input_names output_names
      output_all reverse_input)
  then show ?thesis
    by (simp add: appended_def add_vanilla_rnn_def with_layer_def new_layer_def Let_def
          split: sum.splits)
next
  case (AddGru name W_h W_x b activation inner_activation hidden_size input_size input_names
      output_names output_all reverse_input)
  then show ?thesis
    by (simp add: appended_def add_gru_def with_layer_def new_layer_def Let_def
          del: set_recurrent_activations.simps split: sum.splits prod.splits outcome.splits)
next
  case (AddUnilstm name hidden_size input_size input_names output_names W_h W_x inner_activation
      cell_state_update_activation output_activation b peep output_all forget_bias
      coupled_input_forget_gate cell_clip_threshold reverse_input)
  then show ?thesis
    by (simp add: appended_def add_unilstm_def with_layer_def new_layer_def Let_def
          del: set_recurrent_activations.simps split: sum.splits prod.splits outcome.splits)
next
  case (AddBidirlstm name hidden_size input_size input_names output_names W_h W_x W_h_back
      W_x_back inner_activation cell_state_update_activation output_activation b b_back peep
      peep_back output_all forget_bias coupled_input_forget_gate cell_clip_threshold)
  then show ?thesis
    by (simp add: appended_def add_bidirlstm_def with_layer_def new_layer_def Let_def
          del: set_recurrent_activations.simps split: sum.splits prod.splits outcome.splits)
next
  case (AddFlatten mode name input_name output_name)
  then show ?thesis
    by (simp add: appended_def add_flatten_def with_layer_def new_layer_def Let_def)
qed (simp_all add: appended_def add_inner_product_def add_embedding_def add_softmax_def
      add_upsample_def add_repeat_def add_padding_def add_crop_def add_batchnorm_def
      add_permute_def add_reshape_def with_layer_def new_layer_def)

lemma run_all_layers:
  "run_all calls bld = (Returned, bld') \<Longrightarrow>
   \<exists>ls. nn_layers bld' = nn_layers bld @ ls
      \<and> map (\<lambda>l. (lname l, which_layer (lparams l))) ls
          = map (\<lambda>c. (call_name c, call_variant c)) (filter (\<lambda>c. \<not> is_dropout c) calls)
      \<and> (\<forall>l \<in> set ls. which_layer (lparams l) \<noteq> None)"
proof (induction calls arbitrary: bld)
  case Nil
  then show ?case by simp
next
  case (Cons c calls)
  obtain r b1 where rc: "run c bld = (r, b1)" by (cases "run c bld") auto
  have r: "r = Returned" using Cons.prems rc by (cases r) simp_all
  have rest: "run_all calls b1 = (Returned, bld')" using Cons.prems rc r by simp
  obtain ls where ls: "nn_layers bld' = nn_layers b1 @ ls"
    "map (\<lambda>l. (lname l, which_layer (lparams l))) ls
       = map (\<lambda>c. (call_name c, call_variant c)) (filter (\<lambda>c. \<not> is_dropout c) calls)"
    "\<forall>l \<in> set ls. which_layer (lparams l) \<noteq> None"
    using Cons.IH [OF rest] by blast
  show ?case
  proof (cases "is_dropout c")
    case True
    then have "b1 = bld" using run_dropout [of c bld] rc by simp
    then show ?thesis using ls True by auto
  next
    case False
    let ?l = "appended c bld"
    have a: "b1 = with_layer bld ?l" "lname ?l = call_name c"
      "which_layer (lparams ?l) = call_variant c" "call_variant c \<noteq> None"
      using run_layer [OF False, of bld] rc r by simp_all
    have "nn_layers bld' = nn_layers bld @ (?l # ls)"
      using ls(1) a(1) by (simp add: with_layer_def)
    moreover have "map (\<lambda>l. (lname l, which_layer (lparams l))) (?l # ls)
          = map (\<lambda>c. (call_name c, call_variant c)) (filter (\<lambda>c. \<not> is_dropout c) (c # calls))"
      using ls(2) a(2,3) False by simp
    moreover have "\<forall>l \<in> set (?l # ls). which_layer (lparams l) \<noteq> None"
      using ls(3) a(3,4) by simp
    ultimately show ?thesis by blast
  qed
qed

text \<open>
  Claim C8, amended. For every sequence of layer-factory calls that all return without error,
  the layer list has grown by one record for each call other than \<open>add_dropout\<close>, which
  appends nothing: the new records are in call order, each carries the name its call passed
  and exactly one populated parameter variant, the one of the operation that created it.
\<close>

theorem layer_sequence:
  assumes "run_all calls bld = (Returned, bld')"
  shows "\<exists>ls. nn_layers bld' = nn_layers bld @ ls
      \<and> length ls = length (filter (\<lambda>c. \<not> is_dropout c) calls)
      \<and> map (\<lambda>l. (lname l, which_layer (lparams l))) ls
          = map (\<lambda>c. (call_name c, call_variant c)) (filter (\<lambda>c. \<not> is_dropout c) calls)
      \<and> (\<forall>l \<in> set ls. which_layer (lparams l) \<noteq> None)"
proof -
  obtain ls where ls: "nn_layers bld' = nn_layers bld @ ls"
    "map (\<lambda>l. (lname l, which_layer (lparams l))) ls
       = map (\<lambda>c. (call_name c, call_variant c)) (filter (\<lambda>c. \<not> is_dropout c) calls)"
    "\<forall>l \<in> set ls. which_layer (lparams l) \<noteq> None"
    using run_all_layers [OF assms] by blast
  have "length ls = length (filter (\<lambda>c. \<not> is_dropout c) calls)"
    using arg_cong [OF ls(2), of length] by simp
  then show ?thesis using ls by blast
qed

theorem layer_sequence_witness:
  "run_all three_calls example_builder = (Returned, snd (run_all three_calls example_builder))
   \<and> (\<exists>ls. nn_layers (snd (run_all three_calls example_builder)) = nn_layers example_builder @ ls
      \<and> length ls = length (filter (\<lambda>c. \<not> is_dropout c) three_calls)
      \<and> map (\<lambda>l. (lname l, which_layer (lparams l))) ls
          = map (\<lambda>c. (call_name c, call_variant c)) (filter (\<lambda>c. \<not> is_dropout c) three_calls)
      \<and> (\<forall>l \<in> set ls. which_layer (lparams l) \<noteq> None))"
proof -
  have r: "run_all three_calls example_builder = (Returned, snd (run_all three_calls example_builder))"
    by (simp add: three_calls_def add_inner_product_def add_dropout_def add_softmax_def)
  show ?thesis
    by (intro conjI r layer_sequence [OF r])
qed

end
